theory Spec2Isabelle
  imports Main "HOL-Library.Sublist"
begin

section \<open>JavaScript values\<close>

text \<open>
  The tool handlers of \<^verbatim>\<open>tools/runway-api/*.js\<close> build and return plain JavaScript
  objects. Values are modelled by the datatype below; an object is its list of properties
  in source order. Numbers are the integers (status codes, limits, seeds and durations are
  the only numbers the handlers compute with or compare).
\<close>

datatype jsval =
    Undefined
  | Null
  | Bool bool
  | Num int
  | Str string
  | Arr "jsval list"
  | Obj "(string \<times> jsval) list"

type_synonym object = "(string \<times> jsval) list"

text \<open>JavaScript truthiness, as tested by \<^verbatim>\<open>if (x)\<close>, \<^verbatim>\<open>!x\<close>, \<^verbatim>\<open>x && y\<close>, \<^verbatim>\<open>x || y\<close> and \<^verbatim>\<open>x ? y : z\<close>.\<close>

fun truthy :: "jsval \<Rightarrow> bool" where
  "truthy Undefined = False"
| "truthy Null = False"
| "truthy (Bool b) = b"
| "truthy (Num n) = (n \<noteq> 0)"
| "truthy (Str s) = (s \<noteq> [])"
| "truthy (Arr xs) = True"
| "truthy (Obj ps) = True"

fun nullish :: "jsval \<Rightarrow> bool" where
  "nullish Undefined = True"
| "nullish Null = True"
| "nullish v = False"

text \<open>
  \<open>lookup ps k\<close> reads property \<open>k\<close> of an object: \<^verbatim>\<open>undefined\<close> when it is absent.
  \<open>field v k\<close> is the property access \<^verbatim>\<open>v.k\<close> on a value that is neither \<^verbatim>\<open>null\<close> nor
  \<^verbatim>\<open>undefined\<close> (on those JavaScript throws a TypeError, which every caller below
  tests for first with \<open>nullish\<close>); none of the property names the handlers read is a
  built-in property of a string, number, boolean or array, so there the result is
  \<^verbatim>\<open>undefined\<close>.
\<close>

definition lookup :: "object \<Rightarrow> string \<Rightarrow> jsval" where
  "lookup ps k = (case map_of ps k of None \<Rightarrow> Undefined | Some v \<Rightarrow> v)"

fun field :: "jsval \<Rightarrow> string \<Rightarrow> jsval" where
  "field (Obj ps) k = lookup ps k"
| "field v k = Undefined"

text \<open>\<^verbatim>\<open>v?.k\<close>: optional chaining.\<close>

definition opt_field :: "jsval \<Rightarrow> string \<Rightarrow> jsval" where
  "opt_field v k = (if nullish v then Undefined else field v k)"

text \<open>\<^verbatim>\<open>v[0]\<close> on a truthy value \<open>v\<close>.\<close>

fun first :: "jsval \<Rightarrow> jsval" where
  "first (Arr (x # xs)) = x"
| "first (Str (c # cs)) = Str [c]"
| "first (Obj ps) = lookup ps ''0''"
| "first v = Undefined"

text \<open>\<^verbatim>\<open>task.output && task.output[0] ? task.output[0] : null\<close>\<close>

definition first_output :: "jsval \<Rightarrow> jsval" where
  "first_output out = (if truthy out \<and> truthy (first out) then first out else Null)"

text \<open>Optional handler arguments of type string and number, as JavaScript values.\<close>

definition opt_str :: "string option \<Rightarrow> jsval" where
  "opt_str x = (case x of None \<Rightarrow> Undefined | Some s \<Rightarrow> Str s)"

definition opt_num :: "int option \<Rightarrow> jsval" where
  "opt_num x = (case x of None \<Rightarrow> Undefined | Some n \<Rightarrow> Num n)"

text \<open>A destructuring default \<^verbatim>\<open>{ x = d }\<close> applies exactly when \<^verbatim>\<open>x\<close> is \<^verbatim>\<open>undefined\<close>.\<close>

definition default_to :: "'a option \<Rightarrow> 'a \<Rightarrow> 'a" where
  "default_to x d = (case x of None \<Rightarrow> d | Some v \<Rightarrow> v)"

text \<open>Decimal digits of an index, as the template literal \<^verbatim>\<open>${i}\<close> prints it.\<close>

fun decimal :: "nat \<Rightarrow> string" where
  "decimal n =
     (if n < 10 then [''0123456789'' ! n]
      else decimal (n div 10) @ [''0123456789'' ! (n mod 10)])"

declare decimal.simps [simp del]

section \<open>Handler arguments\<close>

text \<open>
  Every handler destructures one argument object. Its properties are typed as the JSDoc
  comments and the parameter schemas of the tools declare them; \<open>None\<close> is an absent
  property. A reference image is an object with \<^verbatim>\<open>uri\<close> and an optional \<^verbatim>\<open>tag\<close>.
\<close>

record ref_image =
  uri :: "string option"
  tag :: "string option"

record args =
  promptText :: "string option"
  promptImage :: "string option"
  promptVideo :: "string option"
  referenceImages :: "ref_image list option"
  model :: "string option"
  ratio :: "string option"
  duration :: "int option"
  seed :: "int option"
  style :: "string option"
  taskId :: "string option"
  limit :: "int option"
  status :: "string option"
  cursor :: "string option"

text \<open>The empty argument object \<^verbatim>\<open>{}\<close>.\<close>

definition no_args :: args where
  "no_args = \<lparr>promptText = None, promptImage = None, promptVideo = None,
     referenceImages = None, model = None, ratio = None, duration = None, seed = None,
     style = None, taskId = None, limit = None, status = None, cursor = None\<rparr>"

definition js_ref :: "ref_image \<Rightarrow> jsval" where
  "js_ref img = Obj ((case uri img of None \<Rightarrow> [] | Some u \<Rightarrow> [(''uri'', Str u)])
                   @ (case tag img of None \<Rightarrow> [] | Some t \<Rightarrow> [(''tag'', Str t)]))"

section \<open>Errors, the vendor SDK and the process environment\<close>

text \<open>
  The errors of the model are Error objects: what the import, the SDK client and the
  runtime throw. The \<^verbatim>\<open>catch (error)\<close> blocks read \<^verbatim>\<open>name\<close>, \<^verbatim>\<open>message\<close>, \<^verbatim>\<open>status\<close> and
  \<^verbatim>\<open>taskDetails\<close> of the error; the message is a string or absent, the status a number
  or absent. JavaScript can throw any value, and on \<^verbatim>\<open>null\<close>, \<^verbatim>\<open>undefined\<close> or an object
  whose \<^verbatim>\<open>message\<close> is, say, a number, a \<^verbatim>\<open>catch\<close> block of the handlers would throw in
  turn; thrown values of that kind are outside the model.
\<close>

record js_error =
  name :: string
  message :: "string option"
  status :: "int option"
  taskDetails :: jsval

text \<open>The TypeError of the runtime for a property read on \<^verbatim>\<open>null\<close> or \<^verbatim>\<open>undefined\<close>,
  and for a call of something that is not a function.\<close>

definition cannot_read :: "jsval \<Rightarrow> string \<Rightarrow> js_error" where
  "cannot_read v k =
     \<lparr>name = ''TypeError'',
      message = Some (''Cannot read properties of '' @ (if v = Null then ''null'' else ''undefined'')
                      @ '' (reading '' @ [CHR 0x27] @ k @ [CHR 0x27] @ '')''),
      status = None, taskDetails = Undefined\<rparr>"

definition not_a_function :: "string \<Rightarrow> js_error" where
  "not_a_function what =
     \<lparr>name = ''TypeError'', message = Some (what @ '' is not a function''),
      status = None, taskDetails = Undefined\<rparr>"

text \<open>
  One request to the vendor: the key the client was constructed with, the client method
  called, and its argument. The vendor answers a request by resolving with a value or by
  rejecting with an error. A generation request stands for
  \<^verbatim>\<open>client.<endpoint>.create(params).waitForTaskOutput()\<close>.
\<close>

datatype endpoint =
    textToImage | imageToVideo | textToVideo | videoToVideo | videoUpscale
  | tasks_retrieve | tasks_cancel | tasks_list

record request =
  apiKey :: string
  endpoint :: endpoint
  argument :: jsval

datatype outcome = Resolved jsval | Rejected js_error

text \<open>
  What a handler reads from outside: \<^verbatim>\<open>process.env.RUNWAY_API_KEY\<close>, the outcome of
  \<^verbatim>\<open>await import('@runwayml/sdk')\<close> (\<open>None\<close> when the module loads), the vendor behind
  the client, and the clock (\<^verbatim>\<open>new Date().toISOString()\<close>).
\<close>

record world =
  RUNWAY_API_KEY :: "string option"
  sdk_import :: "js_error option"
  vendor :: "request \<Rightarrow> outcome"
  now :: string

text \<open>
  The \<^verbatim>\<open>try\<close> block of a handler ends with a returned envelope (\<open>Inr\<close>) or a thrown error
  (\<open>Inl\<close>), and has issued the listed vendor requests; the \<^verbatim>\<open>catch\<close> block turns the error
  into an envelope. Logging with \<^verbatim>\<open>console.error\<close> is not modelled.
\<close>

type_synonym attempt = "(js_error + object) \<times> request list"

definition try_catch :: "attempt \<Rightarrow> (js_error \<Rightarrow> object) \<Rightarrow> object \<times> request list" where
  "try_catch body handler =
     (case body of (Inl e, calls) \<Rightarrow> (handler e, calls) | (Inr envelope, calls) \<Rightarrow> (envelope, calls))"

definition credential_error :: object where
  "credential_error =
     [(''success'', Bool False),
      (''error'', Str ''RUNWAY_API_KEY environment variable is not set.'')]"

text \<open>
  The lines every handler shares: the dynamic import, the test \<^verbatim>\<open>if (!apiKey)\<close> and
  \<^verbatim>\<open>new RunwayML({ apiKey })\<close>; \<open>k\<close> is the rest of the \<^verbatim>\<open>try\<close> block.
\<close>

definition with_client :: "world \<Rightarrow> (string \<Rightarrow> attempt) \<Rightarrow> attempt" where
  "with_client w k =
     (case sdk_import w of
        Some e \<Rightarrow> (Inl e, [])
      | None \<Rightarrow>
          (case RUNWAY_API_KEY w of
             None \<Rightarrow> (Inr credential_error, [])
           | Some key \<Rightarrow> if key = [] then (Inr credential_error, []) else k key))"

text \<open>\<^verbatim>\<open>await\<close> of one vendor request; \<open>k\<close> builds the returned envelope from the resolved value.\<close>

definition await :: "world \<Rightarrow> request \<Rightarrow> (jsval \<Rightarrow> js_error + object) \<Rightarrow> attempt" where
  "await w req k =
     (case vendor w req of
        Rejected e \<Rightarrow> (Inl e, [req])
      | Resolved v \<Rightarrow> (k v, [req]))"

text \<open>The \<^verbatim>\<open>catch\<close> block of the six generation handlers, up to its two messages.\<close>

definition generation_catch :: "string \<Rightarrow> string \<Rightarrow> js_error \<Rightarrow> object" where
  "generation_catch failed generic e =
     (if name e = ''TaskFailedError'' then
        [(''success'', Bool False),
         (''error'', Str failed),
         (''details'', taskDetails e),
         (''taskId'', opt_field (taskDetails e) ''id'')]
      else
        [(''success'', Bool False),
         (''error'', Str generic),
         (''message'', opt_str (message e))])"

section \<open>The generation handlers\<close>

text \<open>\<^verbatim>\<open>tools/runway-api/generate-image.js\<close>\<close>

definition GenerateImage :: "args \<Rightarrow> world \<Rightarrow> object \<times> request list" where
  "GenerateImage a w =
     try_catch
       (with_client w (\<lambda>key.
          let params =
                [(''model'', Str (default_to (model a) ''gen4_image'')),
                 (''promptText'', opt_str (promptText a)),
                 (''ratio'', Str (default_to (ratio a) ''1920:1080''))]
                @ (if seed a \<noteq> None then [(''seed'', opt_num (seed a))] else [])
                @ (if truthy (opt_str (style a)) then [(''style'', opt_str (style a))] else [])
          in await w \<lparr>apiKey = key, endpoint = textToImage, argument = Obj params\<rparr>
               (\<lambda>task.
                  if nullish task then Inl (cannot_read task ''id'')
                  else Inr
                    [(''success'', Bool True),
                     (''taskId'', field task ''id''),
                     (''status'', field task ''status''),
                     (''output'', field task ''output''),
                     (''imageUrl'', first_output (field task ''output'')),
                     (''createdAt'', field task ''createdAt''),
                     (''model'', field task ''model''),
                     (''promptText'', field task ''promptText''),
                     (''ratio'', field task ''ratio'')])))
       (generation_catch ''Image generation task failed''
          ''An error occurred while generating the image'')"

text \<open>
  \<^verbatim>\<open>generate-image-with-references.js\<close>. Its validation loop
  \<^verbatim>\<open>for (let i = 0; i < referenceImages.length; i++)\<close> returns the rejection of the first
  image without a truthy \<^verbatim>\<open>uri\<close>; \<open>check_uris i imgs\<close> is the loop from index \<open>i\<close> with
  \<open>imgs\<close> left to visit, \<open>None\<close> when it runs through.
\<close>

fun check_uris :: "nat \<Rightarrow> ref_image list \<Rightarrow> object option" where
  "check_uris i [] = None"
| "check_uris i (img # rest) =
     (if \<not> truthy (opt_str (uri img)) then
        Some [(''success'', Bool False),
              (''error'', Str (''Reference image at index '' @ decimal i
                               @ '' must have a 'uri' property''))]
      else check_uris (Suc i) rest)"

definition GenerateImageWithReferences :: "args \<Rightarrow> world \<Rightarrow> object \<times> request list" where
  "GenerateImageWithReferences a w =
     try_catch
       (case referenceImages a of
          None \<Rightarrow>
            (Inr [(''success'', Bool False),
                  (''error'', Str ''referenceImages must be a non-empty array'')], [])
        | Some imgs \<Rightarrow>
            if length imgs = 0 then
              (Inr [(''success'', Bool False),
                    (''error'', Str ''referenceImages must be a non-empty array'')], [])
            else
              (case check_uris 0 imgs of
                 Some rejection \<Rightarrow> (Inr rejection, [])
               | None \<Rightarrow>
                   with_client w (\<lambda>key.
                     let params =
                           [(''model'', Str (default_to (model a) ''gen4_image'')),
                            (''promptText'', opt_str (promptText a)),
                            (''ratio'', Str (default_to (ratio a) ''1920:1080'')),
                            (''referenceImages'', Arr (map js_ref imgs))]
                           @ (if seed a \<noteq> None then [(''seed'', opt_num (seed a))] else [])
                     in await w \<lparr>apiKey = key, endpoint = textToImage, argument = Obj params\<rparr>
                          (\<lambda>task.
                             if nullish task then Inl (cannot_read task ''id'')
                             else Inr
                               [(''success'', Bool True),
                                (''taskId'', field task ''id''),
                                (''status'', field task ''status''),
                                (''output'', field task ''output''),
                                (''imageUrl'', first_output (field task ''output'')),
                                (''createdAt'', field task ''createdAt''),
                                (''model'', field task ''model''),
                                (''promptText'', field task ''promptText''),
                                (''ratio'', field task ''ratio''),
                                (''referenceImages'', field task ''referenceImages'')]))))
       (generation_catch ''Image generation task failed''
          ''An error occurred while generating the image with references'')"

text \<open>\<^verbatim>\<open>generate-video-from-text.js\<close>\<close>

definition GenerateVideoFromText :: "args \<Rightarrow> world \<Rightarrow> object \<times> request list" where
  "GenerateVideoFromText a w =
     try_catch
       (with_client w (\<lambda>key.
          let params =
                [(''model'', Str (default_to (model a) ''gen4_turbo'')),
                 (''promptText'', opt_str (promptText a)),
                 (''ratio'', Str (default_to (ratio a) ''1280:720'')),
                 (''duration'', Num (default_to (duration a) 5))]
                @ (if seed a \<noteq> None then [(''seed'', opt_num (seed a))] else [])
          in await w \<lparr>apiKey = key, endpoint = textToVideo, argument = Obj params\<rparr>
               (\<lambda>task.
                  if nullish task then Inl (cannot_read task ''id'')
                  else Inr
                    [(''success'', Bool True),
                     (''taskId'', field task ''id''),
                     (''status'', field task ''status''),
                     (''output'', field task ''output''),
                     (''videoUrl'', first_output (field task ''output'')),
                     (''createdAt'', field task ''createdAt''),
                     (''model'', field task ''model''),
                     (''promptText'', field task ''promptText''),
                     (''ratio'', field task ''ratio''),
                     (''duration'', field task ''duration'')])))
       (generation_catch ''Video generation task failed''
          ''An error occurred while generating the video from text'')"

text \<open>\<^verbatim>\<open>tools/runway-api/generate-video-from-image.js\<close>\<close>

definition GenerateVideoFromImage :: "args \<Rightarrow> world \<Rightarrow> object \<times> request list" where
  "GenerateVideoFromImage a w =
     try_catch
       (if \<not> truthy (opt_str (promptImage a)) then
          (Inr [(''success'', Bool False), (''error'', Str ''promptImage is required'')], [])
        else
          with_client w (\<lambda>key.
            let params =
                  [(''model'', Str (default_to (model a) ''gen4_turbo'')),
                   (''promptImage'', opt_str (promptImage a)),
                   (''ratio'', Str (default_to (ratio a) ''1280:720'')),
                   (''duration'', Num (default_to (duration a) 5))]
                  @ (if truthy (opt_str (promptText a))
                     then [(''promptText'', opt_str (promptText a))] else [])
                  @ (if seed a \<noteq> None then [(''seed'', opt_num (seed a))] else [])
            in await w \<lparr>apiKey = key, endpoint = imageToVideo, argument = Obj params\<rparr>
                 (\<lambda>task.
                    if nullish task then Inl (cannot_read task ''id'')
                    else Inr
                      [(''success'', Bool True),
                       (''taskId'', field task ''id''),
                       (''status'', field task ''status''),
                       (''output'', field task ''output''),
                       (''videoUrl'', first_output (field task ''output'')),
                       (''createdAt'', field task ''createdAt''),
                       (''model'', field task ''model''),
                       (''promptImage'', field task ''promptImage''),
                       (''promptText'', field task ''promptText''),
                       (''ratio'', field task ''ratio''),
                       (''duration'', field task ''duration'')])))
       (generation_catch ''Video generation task failed''
          ''An error occurred while generating the video from image'')"

text \<open>
  \<^verbatim>\<open>tools/runway-api/generate-video-from-video.js\<close>; \<^verbatim>\<open>referenceImages\<close> defaults
  to the empty array.
\<close>

definition GenerateVideoFromVideo :: "args \<Rightarrow> world \<Rightarrow> object \<times> request list" where
  "GenerateVideoFromVideo a w =
     try_catch
       (let imgs = default_to (referenceImages a) [] in
        if \<not> truthy (opt_str (promptVideo a)) then
          (Inr [(''success'', Bool False), (''error'', Str ''promptVideo is required'')], [])
        else if \<not> truthy (opt_str (promptText a)) then
          (Inr [(''success'', Bool False), (''error'', Str ''promptText is required'')], [])
        else
          (case (if length imgs > 0 then check_uris 0 imgs else None) of
             Some rejection \<Rightarrow> (Inr rejection, [])
           | None \<Rightarrow>
               with_client w (\<lambda>key.
                 let params =
                       [(''model'', Str (default_to (model a) ''gen4_turbo'')),
                        (''promptVideo'', opt_str (promptVideo a)),
                        (''promptText'', opt_str (promptText a)),
                        (''ratio'', Str (default_to (ratio a) ''1280:720'')),
                        (''duration'', Num (default_to (duration a) 5))]
                       @ (if length imgs > 0
                          then [(''referenceImages'', Arr (map js_ref imgs))] else [])
                       @ (if seed a \<noteq> None then [(''seed'', opt_num (seed a))] else [])
                 in await w \<lparr>apiKey = key, endpoint = videoToVideo, argument = Obj params\<rparr>
                      (\<lambda>task.
                         if nullish task then Inl (cannot_read task ''id'')
                         else Inr
                           [(''success'', Bool True),
                            (''taskId'', field task ''id''),
                            (''status'', field task ''status''),
                            (''output'', field task ''output''),
                            (''videoUrl'', first_output (field task ''output'')),
                            (''createdAt'', field task ''createdAt''),
                            (''model'', field task ''model''),
                            (''promptVideo'', field task ''promptVideo''),
                            (''promptText'', field task ''promptText''),
                            (''referenceImages'', field task ''referenceImages''),
                            (''ratio'', field task ''ratio''),
                            (''duration'', field task ''duration'')]))))
       (generation_catch ''Video-to-video generation task failed''
          ''An error occurred while generating the video from video'')"

text \<open>\<^verbatim>\<open>tools/runway-api/upscale-video.js\<close>\<close>

definition UpscaleVideo :: "args \<Rightarrow> world \<Rightarrow> object \<times> request list" where
  "UpscaleVideo a w =
     try_catch
       (if \<not> truthy (opt_str (promptVideo a)) then
          (Inr [(''success'', Bool False), (''error'', Str ''promptVideo is required'')], [])
        else
          with_client w (\<lambda>key.
            let params =
                  [(''model'', Str (default_to (model a) ''upscale_video'')),
                   (''promptVideo'', opt_str (promptVideo a))]
            in await w \<lparr>apiKey = key, endpoint = videoUpscale, argument = Obj params\<rparr>
                 (\<lambda>task.
                    if nullish task then Inl (cannot_read task ''id'')
                    else Inr
                      [(''success'', Bool True),
                       (''taskId'', field task ''id''),
                       (''status'', field task ''status''),
                       (''output'', field task ''output''),
                       (''videoUrl'', first_output (field task ''output'')),
                       (''createdAt'', field task ''createdAt''),
                       (''model'', field task ''model''),
                       (''promptVideo'', field task ''promptVideo'')])))
       (generation_catch ''Video upscaling task failed''
          ''An error occurred while upscaling the video'')"

section \<open>The task handlers\<close>

text \<open>\<^verbatim>\<open>tools/runway-api/get-task-status.js\<close>\<close>

definition GetTaskStatus :: "args \<Rightarrow> world \<Rightarrow> object \<times> request list" where
  "GetTaskStatus a w =
     try_catch
       (if \<not> truthy (opt_str (taskId a)) then
          (Inr [(''success'', Bool False), (''error'', Str ''taskId is required'')], [])
        else
          with_client w (\<lambda>key.
            await w \<lparr>apiKey = key, endpoint = tasks_retrieve, argument = opt_str (taskId a)\<rparr>
              (\<lambda>task.
                 if nullish task then Inl (cannot_read task ''id'')
                 else Inr
                   [(''success'', Bool True),
                    (''taskId'', field task ''id''),
                    (''status'', field task ''status''),
                    (''createdAt'', field task ''createdAt''),
                    (''updatedAt'', field task ''updatedAt''),
                    (''output'', field task ''output''),
                    (''failureReason'', field task ''failureReason''),
                    (''model'', field task ''model''),
                    (''promptText'', field task ''promptText''),
                    (''promptImage'', field task ''promptImage''),
                    (''ratio'', field task ''ratio''),
                    (''duration'', field task ''duration''),
                    (''progress'', field task ''progress''),
                    (''estimatedTimeRemaining'', field task ''estimatedTimeRemaining'')])))
       (\<lambda>e.
          if js_error.status e = Some 404 then
            [(''success'', Bool False),
             (''error'', Str ''Task not found''),
             (''taskId'', opt_str (taskId a))]
          else
            [(''success'', Bool False),
             (''error'', Str ''An error occurred while retrieving the task status''),
             (''message'', opt_str (message e)),
             (''taskId'', opt_str (taskId a))])"

text \<open>
  \<^verbatim>\<open>cancel-task.js\<close>. \<^verbatim>\<open>error.message?.includes('cannot be canceled')\<close> is
  \<^verbatim>\<open>undefined\<close>, hence falsy, when the error has no message.
\<close>

definition CancelTask :: "args \<Rightarrow> world \<Rightarrow> object \<times> request list" where
  "CancelTask a w =
     try_catch
       (if \<not> truthy (opt_str (taskId a)) then
          (Inr [(''success'', Bool False), (''error'', Str ''taskId is required'')], [])
        else
          with_client w (\<lambda>key.
            await w \<lparr>apiKey = key, endpoint = tasks_cancel, argument = opt_str (taskId a)\<rparr>
              (\<lambda>result.
                 if nullish result then Inl (cannot_read result ''status'')
                 else Inr
                   [(''success'', Bool True),
                    (''taskId'', opt_str (taskId a)),
                    (''status'', field result ''status''),
                    (''message'', Str ''Task cancellation requested''),
                    (''canceledAt'',
                       if truthy (field result ''canceledAt'')
                       then field result ''canceledAt'' else Str (now w))])))
       (\<lambda>e.
          if js_error.status e = Some 404 then
            [(''success'', Bool False),
             (''error'', Str ''Task not found''),
             (''taskId'', opt_str (taskId a))]
          else if js_error.status e = Some 400
                  \<and> (case message e of None \<Rightarrow> False
                      | Some m \<Rightarrow> sublist ''cannot be canceled'' m) then
            [(''success'', Bool False),
             (''error'', Str ''Task cannot be canceled (may already be completed or failed)''),
             (''taskId'', opt_str (taskId a))]
          else
            [(''success'', Bool False),
             (''error'', Str ''An error occurred while canceling the task''),
             (''message'', opt_str (message e)),
             (''taskId'', opt_str (taskId a))])"

text \<open>
  \<^verbatim>\<open>tools/runway-api/list-tasks.js\<close>, the variant that calls the vendor.
  \<^verbatim>\<open>tasks.data.map(task => ({...}))\<close> throws a TypeError when \<^verbatim>\<open>tasks.data\<close> is truthy
  and not an array, and when an element is \<^verbatim>\<open>null\<close> or \<^verbatim>\<open>undefined\<close>.
\<close>

definition list_item :: "jsval \<Rightarrow> js_error + jsval" where
  "list_item task =
     (if nullish task then Inl (cannot_read task ''id'')
      else Inr (Obj
        [(''taskId'', field task ''id''),
         (''status'', field task ''status''),
         (''createdAt'', field task ''createdAt''),
         (''updatedAt'', field task ''updatedAt''),
         (''model'', field task ''model''),
         (''type'', field task ''type''),
         (''output'', field task ''output''),
         (''promptText'', field task ''promptText''),
         (''promptImage'', field task ''promptImage''),
         (''failureReason'', field task ''failureReason'')]))"

fun map_items :: "jsval list \<Rightarrow> js_error + jsval list" where
  "map_items [] = Inr []"
| "map_items (t # ts) =
     (case list_item t of
        Inl e \<Rightarrow> Inl e
      | Inr x \<Rightarrow> (case map_items ts of Inl e \<Rightarrow> Inl e | Inr xs \<Rightarrow> Inr (x # xs)))"

definition list_data :: "jsval \<Rightarrow> js_error + jsval" where
  "list_data d =
     (if \<not> truthy d then Inr (Arr [])
      else (case d of
              Arr ts \<Rightarrow> (case map_items ts of Inl e \<Rightarrow> Inl e | Inr xs \<Rightarrow> Inr (Arr xs))
            | _ \<Rightarrow> Inl (not_a_function ''tasks.data.map'')))"

definition list_params :: "args \<Rightarrow> object" where
  "list_params a =
     [(''limit'', Num (min (default_to (limit a) 10) 100))]
     @ (if truthy (opt_str (args.status a)) then [(''status'', opt_str (args.status a))] else [])
     @ (if truthy (opt_str (cursor a)) then [(''cursor'', opt_str (cursor a))] else [])"

definition ListTasks :: "args \<Rightarrow> world \<Rightarrow> object \<times> request list" where
  "ListTasks a w =
     try_catch
       (with_client w (\<lambda>key.
          let params = list_params a
          in await w \<lparr>apiKey = key, endpoint = tasks_list, argument = Obj params\<rparr>
               (\<lambda>tasks.
                  if nullish tasks then Inl (cannot_read tasks ''data'')
                  else (case list_data (field tasks ''data'') of
                          Inl e \<Rightarrow> Inl e
                        | Inr items \<Rightarrow> Inr
                            [(''success'', Bool True),
                             (''tasks'', items),
                             (''hasMore'', field tasks ''hasMore''),
                             (''nextCursor'', field tasks ''nextCursor''),
                             (''total'', field tasks ''total'')]))))
       (\<lambda>e.
          [(''success'', Bool False),
           (''error'', Str ''An error occurred while listing tasks''),
           (''message'', opt_str (message e))])"

text \<open>
  The other \<^verbatim>\<open>list-tasks.js\<close> of the repository: it builds the same parameters and
  returns without a vendor call.
\<close>

definition ListTasks_unsupported :: "args \<Rightarrow> world \<Rightarrow> object \<times> request list" where
  "ListTasks_unsupported a w =
     try_catch
       (with_client w (\<lambda>key.
          let params = list_params a
          in (Inr [(''success'', Bool False),
                   (''error'', Str ''Task listing not supported''),
                   (''message'', Str (''The Runway API does not provide a list tasks endpoint. ''
                      @ ''You need to track task IDs from generation responses and use ''
                      @ ''GetTaskStatus to check individual tasks.'')),
                   (''suggestion'', Str (''Use GetTaskStatus with task IDs returned from ''
                      @ ''generation methods (GenerateImage, GenerateVideo, etc.)''))], [])))
       (\<lambda>e.
          [(''success'', Bool False),
           (''error'', Str ''An error occurred while listing tasks''),
           (''message'', opt_str (message e))])"

section \<open>The registry\<close>

text \<open>
  A handler is an async arrow function whose parameter is an object pattern,
  \<^verbatim>\<open>async ({ taskId }) => { try { ... } catch (error) { ... } }\<close>. Binding the pattern happens
  before the \<^verbatim>\<open>try\<close> block is entered: called with \<^verbatim>\<open>undefined\<close> or \<^verbatim>\<open>null\<close> it throws a
  TypeError that no \<^verbatim>\<open>catch\<close> block of the handler sees, and the promise the function
  returns is rejected with it. Called with an object, the promise is fulfilled with what
  the body returns. \<open>invoke p f\<close> is the function with first pattern property \<open>p\<close> and
  body \<open>f\<close>.
\<close>

datatype argument = Arg_object args | Arg_undefined | Arg_null

datatype settled = Fulfilled object | Rejects js_error

definition cannot_destructure :: "string \<Rightarrow> argument \<Rightarrow> js_error" where
  "cannot_destructure p arg =
     \<lparr>name = ''TypeError'',
      message = Some (''Cannot destructure property '' @ [CHR 0x27] @ p @ [CHR 0x27] @ '' of ''
                      @ (if arg = Arg_null then ''null'' else ''undefined'')),
      status = None, taskDetails = Undefined\<rparr>"

definition invoke ::
  "string \<Rightarrow> (args \<Rightarrow> world \<Rightarrow> object \<times> request list) \<Rightarrow> argument \<Rightarrow> world
   \<Rightarrow> settled \<times> request list" where
  "invoke p f arg w =
     (case arg of
        Arg_object a \<Rightarrow> (Fulfilled (fst (f a w)), snd (f a w))
      | _ \<Rightarrow> (Rejects (cannot_destructure p arg), []))"

text \<open>
  Each module exports \<^verbatim>\<open>apiTool = { function, definition }\<close>; of the definition the name
  and the \<^verbatim>\<open>required\<close> list of the parameter schema are kept. \<open>registry\<close> follows
  \<^verbatim>\<open>toolPaths\<close> of \<^verbatim>\<open>tools/paths.js\<close>.
\<close>

record tool =
  tool_name :: string
  required :: "string list"
  handler :: "argument \<Rightarrow> world \<Rightarrow> settled \<times> request list"

definition registry :: "tool list" where
  "registry =
     [\<lparr>tool_name = ''GenerateImage'', required = [''promptText''],
       handler = invoke ''promptText'' GenerateImage\<rparr>,
      \<lparr>tool_name = ''GenerateImageWithReferences'',
       required = [''promptText'', ''referenceImages''],
       handler = invoke ''promptText'' GenerateImageWithReferences\<rparr>,
      \<lparr>tool_name = ''GenerateVideoFromText'', required = [''promptText''],
       handler = invoke ''promptText'' GenerateVideoFromText\<rparr>,
      \<lparr>tool_name = ''GenerateVideoFromImage'', required = [''promptImage''],
       handler = invoke ''promptImage'' GenerateVideoFromImage\<rparr>,
      \<lparr>tool_name = ''GenerateVideoFromVideo'', required = [''promptVideo'', ''promptText''],
       handler = invoke ''promptVideo'' GenerateVideoFromVideo\<rparr>,
      \<lparr>tool_name = ''UpscaleVideo'', required = [''promptVideo''],
       handler = invoke ''promptVideo'' UpscaleVideo\<rparr>,
      \<lparr>tool_name = ''GetTaskStatus'', required = [''taskId''],
       handler = invoke ''taskId'' GetTaskStatus\<rparr>,
      \<lparr>tool_name = ''ListTasks'', required = [], handler = invoke ''limit'' ListTasks\<rparr>,
      \<lparr>tool_name = ''CancelTask'', required = [''taskId''],
       handler = invoke ''taskId'' CancelTask\<rparr>]"

section \<open>Envelopes, requests and examples\<close>

text \<open>
  An optional string is present when it is truthy: neither absent nor empty. This is the
  test \<^verbatim>\<open>if (x)\<close> (and the negation of \<^verbatim>\<open>if (!x)\<close>) of the handlers.
\<close>

abbreviation present :: "string option \<Rightarrow> bool" where
  "present x \<equiv> truthy (opt_str x)"

text \<open>
  The two shapes of a result envelope: \<^verbatim>\<open>success: true\<close> and no \<^verbatim>\<open>error\<close> property, or
  \<^verbatim>\<open>success: false\<close> and an \<^verbatim>\<open>error\<close> that is a non-empty string.
\<close>

definition well_formed_envelope :: "object \<Rightarrow> bool" where
  "well_formed_envelope r =
     (case map_of r ''success'' of
        Some (Bool True) \<Rightarrow> map_of r ''error'' = None
      | Some (Bool False) \<Rightarrow> (case map_of r ''error'' of Some (Str s) \<Rightarrow> s \<noteq> [] | _ \<Rightarrow> False)
      | _ \<Rightarrow> False)"

text \<open>The promise of a handler is fulfilled, with an envelope of one of the two shapes.\<close>

definition returns_well_formed :: "settled \<Rightarrow> bool" where
  "returns_well_formed s =
     (case s of Fulfilled envelope \<Rightarrow> well_formed_envelope envelope | Rejects e \<Rightarrow> False)"

text \<open>
  The failure envelope of a generation whose task failed, as the specification words it:
  the error is \<^verbatim>\<open><operation> task failed\<close>, the details are the diagnostic payload of the
  vendor, and the task id is read from that payload.
\<close>

definition task_failed :: "string \<Rightarrow> js_error \<Rightarrow> object" where
  "task_failed operation e =
     [(''success'', Bool False),
      (''error'', Str (operation @ '' task failed'')),
      (''details'', taskDetails e),
      (''taskId'', opt_field (taskDetails e) ''id'')]"

text \<open>
  The generic failure envelope, as the specification words it: an operation-scoped error
  and, as \<^verbatim>\<open>message\<close>, the text of the underlying error.
\<close>

definition generic_failure :: "string \<Rightarrow> js_error \<Rightarrow> object" where
  "generic_failure msg e =
     [(''success'', Bool False),
      (''error'', Str msg),
      (''message'', opt_str (message e))]"

text \<open>
  The success envelope of a generation handler for the task \<open>task\<close> the vendor resolved
  with: \<^verbatim>\<open>taskId\<close>, \<^verbatim>\<open>status\<close>, \<^verbatim>\<open>output\<close> and \<^verbatim>\<open>createdAt\<close> of the task, the locator under
  its name, computed from the output of the task, and the properties \<open>copied\<close> of the
  task under their own names. Nothing in it comes from the arguments of the call.
\<close>

definition generation_success :: "string \<Rightarrow> string list \<Rightarrow> jsval \<Rightarrow> object" where
  "generation_success locator copied task =
     [(''success'', Bool True),
      (''taskId'', field task ''id''),
      (''status'', field task ''status''),
      (''output'', field task ''output''),
      (locator, first_output (field task ''output'')),
      (''createdAt'', field task ''createdAt'')]
     @ map (\<lambda>k. (k, field task k)) copied"

text \<open>
  \<open>forwarded result p v\<close>: the handler issued exactly one vendor request, and its
  parameter object carries property \<open>p\<close> with value \<open>v\<close>.
\<close>

definition forwarded :: "object \<times> request list \<Rightarrow> string \<Rightarrow> jsval \<Rightarrow> bool" where
  "forwarded result p v =
     (case snd result of
        [req] \<Rightarrow> (case argument req of Obj params \<Rightarrow> map_of params p = Some v | _ \<Rightarrow> False)
      | _ \<Rightarrow> False)"

text \<open>Mock vendors with a credential set, and example payloads.\<close>

definition mock_resolving :: "jsval \<Rightarrow> world" where
  "mock_resolving v =
     \<lparr>RUNWAY_API_KEY = Some ''key_test'', sdk_import = None,
      vendor = (\<lambda>req. Resolved v), now = ''2025-01-01T00:00:00.000Z''\<rparr>"

definition mock_rejecting :: "js_error \<Rightarrow> world" where
  "mock_rejecting e =
     \<lparr>RUNWAY_API_KEY = Some ''key_test'', sdk_import = None,
      vendor = (\<lambda>req. Rejected e), now = ''2025-01-01T00:00:00.000Z''\<rparr>"

definition fox_task :: jsval where
  "fox_task =
     Obj [(''id'', Str ''task_1''),
          (''status'', Str ''SUCCEEDED''),
          (''createdAt'', Str ''2025-01-01T00:00:00.000Z''),
          (''output'', Arr [Str ''https://cdn.example/img1.png''])]"

definition blank_first_task :: jsval where
  "blank_first_task =
     Obj [(''id'', Str ''task_2''),
          (''status'', Str ''SUCCEEDED''),
          (''output'', Arr [Str [], Str ''https://cdn.example/img2.png''])]"

definition task_failed_error :: js_error where
  "task_failed_error =
     \<lparr>name = ''TaskFailedError'', message = Some ''Task failed'', status = None,
      taskDetails = Obj [(''id'', Str ''task_1''), (''status'', Str ''FAILED'')]\<rparr>"

definition not_found_error :: js_error where
  "not_found_error =
     \<lparr>name = ''NotFoundError'', message = Some ''404 Task not found'', status = Some 404,
      taskDetails = Undefined\<rparr>"

definition not_cancelable_error :: js_error where
  "not_cancelable_error =
     \<lparr>name = ''BadRequestError'', message = Some ''400 Task cannot be canceled'',
      status = Some 400, taskDetails = Undefined\<rparr>"

definition bad_request_error :: js_error where
  "bad_request_error =
     \<lparr>name = ''BadRequestError'', message = Some ''400 Invalid ratio'', status = Some 400,
      taskDetails = Undefined\<rparr>"

definition task_page :: jsval where
  "task_page = Obj [(''data'', Arr [fox_task]), (''hasMore'', Bool False)]"

definition odd_args :: args where
  "odd_args =
     \<lparr>promptText = Some ''a red fox in snow'',
      promptImage = Some ''https://example.com/my-image.jpg'',
      promptVideo = Some ''https://example.com/my-video.mp4'',
      referenceImages = None, model = Some ''gen9_ultra'', ratio = Some ''7:3'',
      duration = None, seed = None, style = Some ''vaporwave'', taskId = None,
      limit = Some 250, status = Some ''BOGUS'', cursor = None\<rparr>"

definition example_image :: "nat \<Rightarrow> ref_image" where
  "example_image n = \<lparr>uri = Some (''https://example.com/ref'' @ decimal n @ ''.jpg''), tag = None\<rparr>"

definition full_args :: args where
  "full_args =
     no_args\<lparr>promptText := Some ''a red fox in snow'',
             promptImage := Some ''https://example.com/my-image.jpg'',
             promptVideo := Some ''https://example.com/my-video.mp4'',
             referenceImages := Some [example_image 0],
             taskId := Some ''task_1''\<rparr>"

lemmas example_defs =
  mock_resolving_def mock_rejecting_def fox_task_def task_failed_error_def not_found_error_def
  not_cancelable_error_def bad_request_error_def example_image_def full_args_def no_args_def
  task_page_def odd_args_def blank_first_task_def

section \<open>The shared steps of a handler\<close>

lemma try_catch_fst:
  "fst (try_catch body h) = (case fst body of Inl e \<Rightarrow> h e | Inr envelope \<Rightarrow> envelope)"
  by (simp add: try_catch_def split: prod.splits sum.splits)

lemma try_catch_snd: "snd (try_catch body h) = snd body"
  by (simp add: try_catch_def split: prod.splits sum.splits)

lemma try_catch_Inr: "try_catch (Inr r, calls) h = (r, calls)"
  by (simp add: try_catch_def)

lemma with_client_Inr:
  "fst (with_client w k) = Inr r \<Longrightarrow>
     r = credential_error \<or> (\<exists>key. key \<noteq> [] \<and> RUNWAY_API_KEY w = Some key \<and> fst (k key) = Inr r)"
  by (auto simp: with_client_def split: option.splits if_splits)

lemma with_client_key:
  "sdk_import w = None \<Longrightarrow> RUNWAY_API_KEY w = Some key \<Longrightarrow> key \<noteq> [] \<Longrightarrow> with_client w k = k key"
  by (simp add: with_client_def)

lemma with_client_no_key:
  "sdk_import w = None \<Longrightarrow> \<not> present (RUNWAY_API_KEY w) \<Longrightarrow>
     with_client w k = (Inr credential_error, [])"
  by (simp add: with_client_def opt_str_def split: option.splits)

lemma with_client_calls:
  "snd (with_client w k) = req # reqs \<Longrightarrow>
     \<exists>key. sdk_import w = None \<and> RUNWAY_API_KEY w = Some key \<and> key \<noteq> [] \<and> with_client w k = k key"
  by (auto simp: with_client_def split: option.splits if_splits)

lemma await_Inr: "fst (await w req k) = Inr r \<Longrightarrow> \<exists>v. vendor w req = Resolved v \<and> k v = Inr r"
  by (auto simp: await_def split: outcome.splits)

lemma await_Rejected: "vendor w req = Rejected e \<Longrightarrow> await w req k = (Inl e, [req])"
  by (simp add: await_def)

lemma await_Resolved: "vendor w req = Resolved v \<Longrightarrow> await w req k = (k v, [req])"
  by (simp add: await_def)

lemma snd_await: "snd (await w req k) = [req]"
  by (simp add: await_def split: outcome.splits)

lemma check_uris_None:
  "check_uris i imgs = None \<longleftrightarrow> (\<forall>img\<in>set imgs. present (uri img))"
  by (induction imgs arbitrary: i) auto

lemma check_uris_pass: "\<forall>img\<in>set imgs. present (uri img) \<Longrightarrow> check_uris i imgs = None"
  by (simp add: check_uris_None)

section \<open>The request of each generation handler\<close>

lemma GenerateImage_request:
  assumes "sdk_import w = None" and "RUNWAY_API_KEY w = Some key" and "key \<noteq> []"
  shows "snd (GenerateImage a w) =
    [\<lparr>apiKey = key, endpoint = textToImage,
      argument = Obj ([(''model'', Str (default_to (model a) ''gen4_image'')),
                       (''promptText'', opt_str (promptText a)),
                       (''ratio'', Str (default_to (ratio a) ''1920:1080''))]
                      @ (if seed a \<noteq> None then [(''seed'', opt_num (seed a))] else [])
                      @ (if present (style a) then [(''style'', opt_str (style a))] else []))\<rparr>]"
  using assms by (simp add: GenerateImage_def try_catch_snd with_client_key snd_await Let_def)

lemma GenerateImageWithReferences_request:
  assumes "referenceImages a = Some imgs" and "imgs \<noteq> []"
    and "\<forall>img\<in>set imgs. present (uri img)"
    and "sdk_import w = None" and "RUNWAY_API_KEY w = Some key" and "key \<noteq> []"
  shows "snd (GenerateImageWithReferences a w) =
    [\<lparr>apiKey = key, endpoint = textToImage,
      argument = Obj ([(''model'', Str (default_to (model a) ''gen4_image'')),
                       (''promptText'', opt_str (promptText a)),
                       (''ratio'', Str (default_to (ratio a) ''1920:1080'')),
                       (''referenceImages'', Arr (map js_ref imgs))]
                      @ (if seed a \<noteq> None then [(''seed'', opt_num (seed a))] else []))\<rparr>]"
  using assms
  by (simp add: GenerateImageWithReferences_def try_catch_snd check_uris_pass with_client_key
      snd_await Let_def)

lemma GenerateVideoFromText_request:
  assumes "sdk_import w = None" and "RUNWAY_API_KEY w = Some key" and "key \<noteq> []"
  shows "snd (GenerateVideoFromText a w) =
    [\<lparr>apiKey = key, endpoint = textToVideo,
      argument = Obj ([(''model'', Str (default_to (model a) ''gen4_turbo'')),
                       (''promptText'', opt_str (promptText a)),
                       (''ratio'', Str (default_to (ratio a) ''1280:720'')),
                       (''duration'', Num (default_to (duration a) 5))]
                      @ (if seed a \<noteq> None then [(''seed'', opt_num (seed a))] else []))\<rparr>]"
  using assms
  by (simp add: GenerateVideoFromText_def try_catch_snd with_client_key snd_await Let_def)

lemma GenerateVideoFromImage_request:
  assumes "present (promptImage a)"
    and "sdk_import w = None" and "RUNWAY_API_KEY w = Some key" and "key \<noteq> []"
  shows "snd (GenerateVideoFromImage a w) =
    [\<lparr>apiKey = key, endpoint = imageToVideo,
      argument = Obj ([(''model'', Str (default_to (model a) ''gen4_turbo'')),
                       (''promptImage'', opt_str (promptImage a)),
                       (''ratio'', Str (default_to (ratio a) ''1280:720'')),
                       (''duration'', Num (default_to (duration a) 5))]
                      @ (if present (promptText a)
                         then [(''promptText'', opt_str (promptText a))] else [])
                      @ (if seed a \<noteq> None then [(''seed'', opt_num (seed a))] else []))\<rparr>]"
  using assms
  by (simp add: GenerateVideoFromImage_def try_catch_snd with_client_key snd_await Let_def)

lemma GenerateVideoFromVideo_request:
  assumes "present (promptVideo a)" and "present (promptText a)"
    and "\<forall>img\<in>set (default_to (referenceImages a) []). present (uri img)"
    and "sdk_import w = None" and "RUNWAY_API_KEY w = Some key" and "key \<noteq> []"
  shows "snd (GenerateVideoFromVideo a w) =
    [\<lparr>apiKey = key, endpoint = videoToVideo,
      argument = Obj ([(''model'', Str (default_to (model a) ''gen4_turbo'')),
                       (''promptVideo'', opt_str (promptVideo a)),
                       (''promptText'', opt_str (promptText a)),
                       (''ratio'', Str (default_to (ratio a) ''1280:720'')),
                       (''duration'', Num (default_to (duration a) 5))]
                      @ (if length (default_to (referenceImages a) []) > 0
                         then [(''referenceImages'',
                                Arr (map js_ref (default_to (referenceImages a) [])))]
                         else [])
                      @ (if seed a \<noteq> None then [(''seed'', opt_num (seed a))] else []))\<rparr>]"
  using assms
  by (simp add: GenerateVideoFromVideo_def try_catch_snd check_uris_pass with_client_key
      snd_await Let_def)

lemma UpscaleVideo_request:
  assumes "present (promptVideo a)"
    and "sdk_import w = None" and "RUNWAY_API_KEY w = Some key" and "key \<noteq> []"
  shows "snd (UpscaleVideo a w) =
    [\<lparr>apiKey = key, endpoint = videoUpscale,
      argument = Obj [(''model'', Str (default_to (model a) ''upscale_video'')),
                      (''promptVideo'', opt_str (promptVideo a))]\<rparr>]"
  using assms by (simp add: UpscaleVideo_def try_catch_snd with_client_key snd_await Let_def)

lemma not_cancelable_message: "sublist ''cannot be canceled'' ''400 Task cannot be canceled''"
  by code_simp

section \<open>Every handler returns a well-formed envelope\<close>

lemma try_catch_shape:
  assumes "\<And>e. P (h e)" and "\<And>r. fst body = Inr r \<Longrightarrow> P r"
  shows "P (fst (try_catch body h))"
  using assms by (cases "fst body") (simp_all add: try_catch_fst)

lemma rejection_shape:
  "msg \<noteq> [] \<Longrightarrow> well_formed_envelope [(''success'', Bool False), (''error'', Str msg)]"
  by (simp add: well_formed_envelope_def)

lemma credential_error_shape: "well_formed_envelope credential_error"
  by (simp add: credential_error_def well_formed_envelope_def)

lemma check_uris_shape: "check_uris i imgs = Some r \<Longrightarrow> well_formed_envelope r"
  by (induction imgs arbitrary: i) (auto simp: well_formed_envelope_def split: if_splits)

lemma generation_catch_shape:
  "failed \<noteq> [] \<Longrightarrow> generic \<noteq> [] \<Longrightarrow> well_formed_envelope (generation_catch failed generic e)"
  by (simp add: generation_catch_def well_formed_envelope_def)

lemmas shape_simps = Let_def rejection_shape check_uris_shape credential_error_shape

lemma GenerateImage_shape: "well_formed_envelope (fst (GenerateImage a w))"
  unfolding GenerateImage_def
  apply (rule try_catch_shape)
   apply (simp add: generation_catch_shape)
  apply (auto simp: shape_simps dest!: with_client_Inr await_Inr split: option.splits if_splits)
  apply (auto simp: well_formed_envelope_def)
  done

lemma GenerateImageWithReferences_shape: "well_formed_envelope (fst (GenerateImageWithReferences a w))"
  unfolding GenerateImageWithReferences_def
  apply (rule try_catch_shape)
   apply (simp add: generation_catch_shape)
  apply (auto simp: shape_simps dest!: with_client_Inr await_Inr split: option.splits if_splits)
  apply (auto simp: well_formed_envelope_def)
  done

lemma GenerateVideoFromText_shape: "well_formed_envelope (fst (GenerateVideoFromText a w))"
  unfolding GenerateVideoFromText_def
  apply (rule try_catch_shape)
   apply (simp add: generation_catch_shape)
  apply (auto simp: shape_simps dest!: with_client_Inr await_Inr split: option.splits if_splits)
  apply (auto simp: well_formed_envelope_def)
  done

lemma GenerateVideoFromImage_shape: "well_formed_envelope (fst (GenerateVideoFromImage a w))"
  unfolding GenerateVideoFromImage_def
  apply (rule try_catch_shape)
   apply (simp add: generation_catch_shape)
  apply (auto simp: shape_simps dest!: with_client_Inr await_Inr split: option.splits if_splits)
  apply (auto simp: well_formed_envelope_def)
  done

lemma GenerateVideoFromVideo_shape: "well_formed_envelope (fst (GenerateVideoFromVideo a w))"
  unfolding GenerateVideoFromVideo_def
  apply (rule try_catch_shape)
   apply (simp add: generation_catch_shape)
  apply (auto simp: shape_simps dest!: with_client_Inr await_Inr split: option.splits if_splits)
  apply (auto simp: well_formed_envelope_def)
  done

lemma UpscaleVideo_shape: "well_formed_envelope (fst (UpscaleVideo a w))"
  unfolding UpscaleVideo_def
  apply (rule try_catch_shape)
   apply (simp add: generation_catch_shape)
  apply (auto simp: shape_simps dest!: with_client_Inr await_Inr split: option.splits if_splits)
  apply (auto simp: well_formed_envelope_def)
  done

lemma GetTaskStatus_shape: "well_formed_envelope (fst (GetTaskStatus a w))"
  unfolding GetTaskStatus_def
  apply (rule try_catch_shape)
   apply (simp add: well_formed_envelope_def)
  apply (auto simp: shape_simps dest!: with_client_Inr await_Inr split: option.splits if_splits)
  apply (auto simp: well_formed_envelope_def)
  done

lemma CancelTask_shape: "well_formed_envelope (fst (CancelTask a w))"
  unfolding CancelTask_def
  apply (rule try_catch_shape)
   apply (simp add: well_formed_envelope_def)
  apply (auto simp: shape_simps dest!: with_client_Inr await_Inr split: option.splits if_splits)
  apply (auto simp: well_formed_envelope_def)
  done

lemma ListTasks_shape: "well_formed_envelope (fst (ListTasks a w))"
  unfolding ListTasks_def
  apply (rule try_catch_shape)
   apply (simp add: well_formed_envelope_def)
  apply (auto simp: shape_simps dest!: with_client_Inr await_Inr split: option.splits if_splits sum.splits)
  apply (auto simp: well_formed_envelope_def)
  done

lemma ListTasks_unsupported_shape: "well_formed_envelope (fst (ListTasks_unsupported a w))"
  unfolding ListTasks_unsupported_def
  apply (rule try_catch_shape)
   apply (simp add: well_formed_envelope_def)
  apply (auto simp: shape_simps dest!: with_client_Inr split: option.splits if_splits)
  apply (auto simp: well_formed_envelope_def)
  done

lemma invoke_object:
  "well_formed_envelope (fst (f a w)) \<Longrightarrow> returns_well_formed (fst (invoke p f (Arg_object a) w))"
  by (simp add: invoke_def returns_well_formed_def)

text \<open>
  C2, as the claim states it, fails: not every input is answered with an envelope. The
  parameter pattern of a handler is bound before its \<^verbatim>\<open>try\<close> block, so \<^verbatim>\<open>CancelTask\<close>
  (the last tool of the registry) called with \<^verbatim>\<open>undefined\<close> rejects with a TypeError
  instead of returning an envelope, and so does every other handler, also for \<^verbatim>\<open>null\<close>.
\<close>

theorem rejects_without_argument_object:
  "handler (last registry) Arg_undefined (mock_resolving fox_task) =
     (Rejects (cannot_destructure ''taskId'' Arg_undefined), [])
   \<and> \<not> returns_well_formed (fst (handler (last registry) Arg_undefined (mock_resolving fox_task)))
   \<and> fst (invoke ''promptText'' GenerateImage Arg_null (mock_resolving fox_task)) =
       Rejects (cannot_destructure ''promptText'' Arg_null)"
  by (simp add: registry_def invoke_def returns_well_formed_def)

text \<open>
  C2, amended. Let the handler be called with an argument object, and let the vendor
  answer as the model has it: it resolves with any value, also \<^verbatim>\<open>null\<close> or \<^verbatim>\<open>undefined\<close>,
  or rejects with an Error object (a \<^verbatim>\<open>name\<close>, a \<^verbatim>\<open>message\<close> that is a string or absent, a
  \<^verbatim>\<open>status\<close> that is a number or absent, any \<^verbatim>\<open>taskDetails\<close>); the import of the SDK
  module may fail with such an error too. Then, for every tool of the registry (and for
  the second \<^verbatim>\<open>ListTasks\<close>), the promise is fulfilled, never rejected, and the envelope has
  exactly one of the two shapes: \<^verbatim>\<open>success: true\<close> without an \<^verbatim>\<open>error\<close> property, or
  \<^verbatim>\<open>success: false\<close> with a non-empty \<^verbatim>\<open>error\<close> string. What a handler does when the
  vendor throws a value that is not such an Error object (the \<^verbatim>\<open>catch\<close> block reads
  \<^verbatim>\<open>error.name\<close>, \<^verbatim>\<open>error.status\<close>, \<^verbatim>\<open>error.message\<close> of whatever was thrown) is left open.
\<close>

theorem envelope_well_formed_for_argument_objects:
  "(\<forall>t\<in>set registry. returns_well_formed (fst (handler t (Arg_object a) w)))
   \<and> returns_well_formed (fst (invoke ''limit'' ListTasks_unsupported (Arg_object a) w))"
  by (simp add: registry_def invoke_object GenerateImage_shape GenerateImageWithReferences_shape
      GenerateVideoFromText_shape GenerateVideoFromImage_shape GenerateVideoFromVideo_shape
      UpscaleVideo_shape GetTaskStatus_shape ListTasks_shape CancelTask_shape
      ListTasks_unsupported_shape)

theorem envelope_well_formed_for_argument_objects_witness:
  "\<lparr>tool_name = ''CancelTask'', required = [''taskId''], handler = invoke ''taskId'' CancelTask\<rparr>
     \<in> set registry
   \<and> invoke ''taskId'' CancelTask (Arg_object full_args) (mock_rejecting not_cancelable_error) =
       (Fulfilled
          [(''success'', Bool False),
           (''error'', Str ''Task cannot be canceled (may already be completed or failed)''),
           (''taskId'', Str ''task_1'')],
        [\<lparr>apiKey = ''key_test'', endpoint = tasks_cancel, argument = Str ''task_1''\<rparr>])
   \<and> returns_well_formed
        (fst (invoke ''taskId'' CancelTask (Arg_object full_args)
               (mock_rejecting not_cancelable_error)))
   \<and> returns_well_formed
        (fst (invoke ''promptText'' GenerateImage (Arg_object no_args) (mock_resolving Null)))
   \<and> fst (invoke ''promptText'' GenerateImage (Arg_object no_args) (mock_resolving Null)) =
       Fulfilled
         [(''success'', Bool False),
          (''error'', Str ''An error occurred while generating the image''),
          (''message'', Str ''Cannot read properties of null (reading 'id')'')]"
proof -
  have cancel: "CancelTask full_args (mock_rejecting not_cancelable_error) =
      ([(''success'', Bool False),
        (''error'', Str ''Task cannot be canceled (may already be completed or failed)''),
        (''taskId'', Str ''task_1'')],
       [\<lparr>apiKey = ''key_test'', endpoint = tasks_cancel, argument = Str ''task_1''\<rparr>])"
    by (simp add: CancelTask_def try_catch_def with_client_def await_def opt_str_def
        example_defs not_cancelable_message)
  have image: "fst (GenerateImage no_args (mock_resolving Null)) =
      [(''success'', Bool False),
       (''error'', Str ''An error occurred while generating the image''),
       (''message'', Str ''Cannot read properties of null (reading 'id')'')]"
    by (simp add: GenerateImage_def try_catch_def with_client_def await_def generation_catch_def
        cannot_read_def opt_str_def opt_num_def default_to_def example_defs)
  have "returns_well_formed
      (fst (invoke ''taskId'' CancelTask (Arg_object full_args)
             (mock_rejecting not_cancelable_error)))"
    using envelope_well_formed_for_argument_objects
        [of full_args "mock_rejecting not_cancelable_error"]
    by (simp add: registry_def)
  moreover have "returns_well_formed
      (fst (invoke ''promptText'' GenerateImage (Arg_object no_args) (mock_resolving Null)))"
    using envelope_well_formed_for_argument_objects [of no_args "mock_resolving Null"]
    by (simp add: registry_def)
  ultimately show ?thesis
    using cancel image by (simp add: registry_def invoke_def)
qed

section \<open>A missing credential\<close>

lemma no_key_GenerateImage:
  "sdk_import w = None \<Longrightarrow> \<not> present (RUNWAY_API_KEY w) \<Longrightarrow>
     GenerateImage a w = (credential_error, [])"
  by (simp add: GenerateImage_def with_client_no_key try_catch_Inr)

lemma no_key_GenerateVideoFromText:
  "sdk_import w = None \<Longrightarrow> \<not> present (RUNWAY_API_KEY w) \<Longrightarrow>
     GenerateVideoFromText a w = (credential_error, [])"
  by (simp add: GenerateVideoFromText_def with_client_no_key try_catch_Inr)

lemma no_key_ListTasks:
  "sdk_import w = None \<Longrightarrow> \<not> present (RUNWAY_API_KEY w) \<Longrightarrow>
     ListTasks a w = (credential_error, [])"
  by (simp add: ListTasks_def with_client_no_key try_catch_Inr)

lemma no_key_ListTasks_unsupported:
  "sdk_import w = None \<Longrightarrow> \<not> present (RUNWAY_API_KEY w) \<Longrightarrow>
     ListTasks_unsupported a w = (credential_error, [])"
  by (simp add: ListTasks_unsupported_def with_client_no_key try_catch_Inr)

lemma no_key_GenerateVideoFromImage:
  "sdk_import w = None \<Longrightarrow> \<not> present (RUNWAY_API_KEY w) \<Longrightarrow> present (promptImage a) \<Longrightarrow>
     GenerateVideoFromImage a w = (credential_error, [])"
  by (simp add: GenerateVideoFromImage_def with_client_no_key try_catch_Inr)

lemma no_key_UpscaleVideo:
  "sdk_import w = None \<Longrightarrow> \<not> present (RUNWAY_API_KEY w) \<Longrightarrow> present (promptVideo a) \<Longrightarrow>
     UpscaleVideo a w = (credential_error, [])"
  by (simp add: UpscaleVideo_def with_client_no_key try_catch_Inr)

lemma no_key_GetTaskStatus:
  "sdk_import w = None \<Longrightarrow> \<not> present (RUNWAY_API_KEY w) \<Longrightarrow> present (taskId a) \<Longrightarrow>
     GetTaskStatus a w = (credential_error, [])"
  by (simp add: GetTaskStatus_def with_client_no_key try_catch_Inr)

lemma no_key_CancelTask:
  "sdk_import w = None \<Longrightarrow> \<not> present (RUNWAY_API_KEY w) \<Longrightarrow> present (taskId a) \<Longrightarrow>
     CancelTask a w = (credential_error, [])"
  by (simp add: CancelTask_def with_client_no_key try_catch_Inr)

lemma no_key_GenerateVideoFromVideo:
  "sdk_import w = None \<Longrightarrow> \<not> present (RUNWAY_API_KEY w) \<Longrightarrow> present (promptVideo a) \<Longrightarrow>
   present (promptText a) \<Longrightarrow> \<forall>img\<in>set (default_to (referenceImages a) []). present (uri img) \<Longrightarrow>
     GenerateVideoFromVideo a w = (credential_error, [])"
  by (simp add: GenerateVideoFromVideo_def with_client_no_key try_catch_Inr check_uris_pass Let_def)

lemma no_key_GenerateImageWithReferences:
  "sdk_import w = None \<Longrightarrow> \<not> present (RUNWAY_API_KEY w) \<Longrightarrow> referenceImages a = Some imgs \<Longrightarrow>
   imgs \<noteq> [] \<Longrightarrow> \<forall>img\<in>set imgs. present (uri img) \<Longrightarrow>
     GenerateImageWithReferences a w = (credential_error, [])"
  by (simp add: GenerateImageWithReferences_def with_client_no_key try_catch_Inr check_uris_pass)

text \<open>
  C3. With the SDK module loaded and \<^verbatim>\<open>RUNWAY_API_KEY\<close> unset (or empty), every handler
  whose local checks pass returns the envelope \<open>credential_error\<close>, that is
  \<^verbatim>\<open>{success: false, error: 'RUNWAY_API_KEY environment variable is not set.'}\<close>, the same
  for all of them, and issues no vendor request. The local checks are: none for
  \<^verbatim>\<open>GenerateImage\<close>, \<^verbatim>\<open>GenerateVideoFromText\<close> and \<^verbatim>\<open>ListTasks\<close>; the required
  \<^verbatim>\<open>promptImage\<close>, \<^verbatim>\<open>promptVideo\<close>, \<^verbatim>\<open>promptText\<close> or \<^verbatim>\<open>taskId\<close> present; and every
  reference image with a \<^verbatim>\<open>uri\<close> (of a non-empty list for
  \<^verbatim>\<open>GenerateImageWithReferences\<close>).
\<close>

theorem missing_credential:
  assumes "sdk_import w = None" and "\<not> present (RUNWAY_API_KEY w)"
  shows "GenerateImage a w = (credential_error, []) \<and>
         GenerateVideoFromText a w = (credential_error, []) \<and>
         ListTasks a w = (credential_error, []) \<and>
         ListTasks_unsupported a w = (credential_error, []) \<and>
         (present (promptImage a) \<longrightarrow> GenerateVideoFromImage a w = (credential_error, [])) \<and>
         (present (promptVideo a) \<longrightarrow> UpscaleVideo a w = (credential_error, [])) \<and>
         (present (taskId a) \<longrightarrow> GetTaskStatus a w = (credential_error, [])) \<and>
         (present (taskId a) \<longrightarrow> CancelTask a w = (credential_error, [])) \<and>
         (present (promptVideo a) \<and> present (promptText a)
            \<and> (\<forall>img\<in>set (default_to (referenceImages a) []). present (uri img))
          \<longrightarrow> GenerateVideoFromVideo a w = (credential_error, [])) \<and>
         (\<forall>imgs. referenceImages a = Some imgs \<and> imgs \<noteq> [] \<and> (\<forall>img\<in>set imgs. present (uri img))
          \<longrightarrow> GenerateImageWithReferences a w = (credential_error, [])) \<and>
         credential_error =
           [(''success'', Bool False),
            (''error'', Str ''RUNWAY_API_KEY environment variable is not set.'')]"
  using assms
  by (simp add: no_key_GenerateImage no_key_GenerateVideoFromText no_key_ListTasks
      no_key_ListTasks_unsupported no_key_GenerateVideoFromImage no_key_UpscaleVideo
      no_key_GetTaskStatus no_key_CancelTask no_key_GenerateVideoFromVideo
      no_key_GenerateImageWithReferences credential_error_def)

theorem missing_credential_witness:
  "sdk_import (mock_resolving fox_task\<lparr>RUNWAY_API_KEY := None\<rparr>) = None
   \<and> \<not> present (RUNWAY_API_KEY (mock_resolving fox_task\<lparr>RUNWAY_API_KEY := None\<rparr>))
   \<and> present (promptImage full_args) \<and> present (promptVideo full_args)
   \<and> present (promptText full_args) \<and> present (taskId full_args)
   \<and> referenceImages full_args = Some [example_image 0]
   \<and> present (uri (example_image 0))
   \<and> GenerateImage full_args (mock_resolving fox_task\<lparr>RUNWAY_API_KEY := None\<rparr>) = (credential_error, [])
   \<and> GenerateImageWithReferences full_args (mock_resolving fox_task\<lparr>RUNWAY_API_KEY := None\<rparr>) = (credential_error, [])
   \<and> GenerateVideoFromText full_args (mock_resolving fox_task\<lparr>RUNWAY_API_KEY := None\<rparr>) = (credential_error, [])
   \<and> GenerateVideoFromImage full_args (mock_resolving fox_task\<lparr>RUNWAY_API_KEY := None\<rparr>) = (credential_error, [])
   \<and> GenerateVideoFromVideo full_args (mock_resolving fox_task\<lparr>RUNWAY_API_KEY := None\<rparr>) = (credential_error, [])
   \<and> UpscaleVideo full_args (mock_resolving fox_task\<lparr>RUNWAY_API_KEY := None\<rparr>) = (credential_error, [])
   \<and> GetTaskStatus full_args (mock_resolving fox_task\<lparr>RUNWAY_API_KEY := None\<rparr>) = (credential_error, [])
   \<and> ListTasks full_args (mock_resolving fox_task\<lparr>RUNWAY_API_KEY := None\<rparr>) = (credential_error, [])
   \<and> ListTasks_unsupported full_args (mock_resolving fox_task\<lparr>RUNWAY_API_KEY := None\<rparr>) = (credential_error, [])
   \<and> CancelTask full_args (mock_resolving fox_task\<lparr>RUNWAY_API_KEY := None\<rparr>) = (credential_error, [])
   \<and> credential_error =
       [(''success'', Bool False),
        (''error'', Str ''RUNWAY_API_KEY environment variable is not set.'')]"
  using missing_credential [of "mock_resolving fox_task\<lparr>RUNWAY_API_KEY := None\<rparr>" full_args]
  by (simp add: example_defs opt_str_def default_to_def)

section \<open>Errors of the task operations\<close>

lemma GetTaskStatus_rejected:
  assumes "sdk_import w = None" and "RUNWAY_API_KEY w = Some key" and "key \<noteq> []"
    and "taskId a = Some t" and "t \<noteq> []"
    and "vendor w \<lparr>apiKey = key, endpoint = tasks_retrieve, argument = Str t\<rparr> = Rejected e"
  shows "GetTaskStatus a w =
    ((if js_error.status e = Some 404 then
        [(''success'', Bool False), (''error'', Str ''Task not found''), (''taskId'', Str t)]
      else
        [(''success'', Bool False),
         (''error'', Str ''An error occurred while retrieving the task status''),
         (''message'', opt_str (message e)), (''taskId'', Str t)]),
     [\<lparr>apiKey = key, endpoint = tasks_retrieve, argument = Str t\<rparr>])"
  using assms
  by (simp add: GetTaskStatus_def with_client_key await_Rejected try_catch_def opt_str_def)

lemma CancelTask_rejected:
  assumes "sdk_import w = None" and "RUNWAY_API_KEY w = Some key" and "key \<noteq> []"
    and "taskId a = Some t" and "t \<noteq> []"
    and "vendor w \<lparr>apiKey = key, endpoint = tasks_cancel, argument = Str t\<rparr> = Rejected e"
  shows "CancelTask a w =
    ((if js_error.status e = Some 404 then
        [(''success'', Bool False), (''error'', Str ''Task not found''), (''taskId'', Str t)]
      else if js_error.status e = Some 400
              \<and> (\<exists>m. message e = Some m \<and> sublist ''cannot be canceled'' m) then
        [(''success'', Bool False),
         (''error'', Str ''Task cannot be canceled (may already be completed or failed)''),
         (''taskId'', Str t)]
      else
        [(''success'', Bool False),
         (''error'', Str ''An error occurred while canceling the task''),
         (''message'', opt_str (message e)), (''taskId'', Str t)]),
     [\<lparr>apiKey = key, endpoint = tasks_cancel, argument = Str t\<rparr>])"
  using assms
  by (cases "message e")
    (simp_all add: CancelTask_def with_client_key await_Rejected try_catch_def opt_str_def)

text \<open>
  C4. Let the SDK module be loaded, the credential set and \<^verbatim>\<open>taskId\<close> present, and let the
  vendor reject the request (\<^verbatim>\<open>tasks.retrieve(taskId)\<close> of \<^verbatim>\<open>GetTaskStatus\<close>,
  \<^verbatim>\<open>tasks.cancel(taskId)\<close> of \<^verbatim>\<open>CancelTask\<close>) with an error \<open>e\<close>. The envelope is chosen
  by inspecting \<open>e\<close>, the first match winning: status 404 gives \<^verbatim>\<open>Task not found\<close> with
  the requested id; otherwise, for \<^verbatim>\<open>CancelTask\<close> only, status 400 with a message that
  contains \<^verbatim>\<open>cannot be canceled\<close> gives the not-cancelable envelope with the requested
  id; every other error gives the generic envelope of the operation, with the message of
  the error and the requested id. So an unknown id, which the vendor answers with 404,
  is classified as not found, and a task in a terminal state, which the vendor answers
  with 400 and that message, as not cancelable.
\<close>

theorem task_error_classification:
  assumes "sdk_import w = None" and "RUNWAY_API_KEY w = Some key" and "key \<noteq> []"
    and "taskId a = Some t" and "t \<noteq> []"
  shows
    "(vendor w \<lparr>apiKey = key, endpoint = tasks_retrieve, argument = Str t\<rparr> = Rejected e \<longrightarrow>
        GetTaskStatus a w =
          ((if js_error.status e = Some 404 then
              [(''success'', Bool False), (''error'', Str ''Task not found''), (''taskId'', Str t)]
            else
              [(''success'', Bool False),
               (''error'', Str ''An error occurred while retrieving the task status''),
               (''message'', opt_str (message e)), (''taskId'', Str t)]),
           [\<lparr>apiKey = key, endpoint = tasks_retrieve, argument = Str t\<rparr>]))
     \<and> (vendor w \<lparr>apiKey = key, endpoint = tasks_cancel, argument = Str t\<rparr> = Rejected e \<longrightarrow>
        CancelTask a w =
          ((if js_error.status e = Some 404 then
              [(''success'', Bool False), (''error'', Str ''Task not found''), (''taskId'', Str t)]
            else if js_error.status e = Some 400
                    \<and> (\<exists>m. message e = Some m \<and> sublist ''cannot be canceled'' m) then
              [(''success'', Bool False),
               (''error'', Str ''Task cannot be canceled (may already be completed or failed)''),
               (''taskId'', Str t)]
            else
              [(''success'', Bool False),
               (''error'', Str ''An error occurred while canceling the task''),
               (''message'', opt_str (message e)), (''taskId'', Str t)]),
           [\<lparr>apiKey = key, endpoint = tasks_cancel, argument = Str t\<rparr>]))"
  using assms GetTaskStatus_rejected [of w key a t e] CancelTask_rejected [of w key a t e]
  by blast

theorem task_error_classification_witness:
  "GetTaskStatus full_args (mock_rejecting not_found_error) =
     ([(''success'', Bool False), (''error'', Str ''Task not found''), (''taskId'', Str ''task_1'')],
      [\<lparr>apiKey = ''key_test'', endpoint = tasks_retrieve, argument = Str ''task_1''\<rparr>])
   \<and> CancelTask full_args (mock_rejecting not_found_error) =
     ([(''success'', Bool False), (''error'', Str ''Task not found''), (''taskId'', Str ''task_1'')],
      [\<lparr>apiKey = ''key_test'', endpoint = tasks_cancel, argument = Str ''task_1''\<rparr>])
   \<and> CancelTask full_args (mock_rejecting not_cancelable_error) =
     ([(''success'', Bool False),
       (''error'', Str ''Task cannot be canceled (may already be completed or failed)''),
       (''taskId'', Str ''task_1'')],
      [\<lparr>apiKey = ''key_test'', endpoint = tasks_cancel, argument = Str ''task_1''\<rparr>])
   \<and> GetTaskStatus full_args (mock_rejecting not_cancelable_error) =
     ([(''success'', Bool False),
       (''error'', Str ''An error occurred while retrieving the task status''),
       (''message'', Str ''400 Task cannot be canceled''),
       (''taskId'', Str ''task_1'')],
      [\<lparr>apiKey = ''key_test'', endpoint = tasks_retrieve, argument = Str ''task_1''\<rparr>])"
  using task_error_classification
      [of "mock_rejecting not_found_error" "''key_test''" full_args "''task_1''" not_found_error]
    task_error_classification
      [of "mock_rejecting not_cancelable_error" "''key_test''" full_args "''task_1''"
          not_cancelable_error]
  by (simp add: example_defs opt_str_def not_cancelable_message)

section \<open>Failed generation tasks\<close>

lemma generation_catch_failed:
  "name e = ''TaskFailedError'' \<Longrightarrow>
     generation_catch (operation @ '' task failed'') generic e = task_failed operation e"
  by (simp add: generation_catch_def task_failed_def)

lemma GenerateImage_failed:
  assumes "name e = ''TaskFailedError''" and "snd (GenerateImage a w) = [req]"
    and "vendor w req = Rejected e"
  shows "fst (GenerateImage a w) = task_failed ''Image generation'' e"
proof -
  from assms(2) obtain key
    where "sdk_import w = None" and "RUNWAY_API_KEY w = Some key" and "key \<noteq> []"
    by (auto simp: GenerateImage_def try_catch_snd Let_def split: if_splits option.splits
        dest: with_client_calls)
  with assms show ?thesis
    using generation_catch_failed [of e "''Image generation''"]
    by (auto simp: GenerateImage_def try_catch_fst try_catch_snd with_client_key Let_def snd_await
        await_Rejected split: if_splits option.splits)
qed

lemma GenerateImageWithReferences_failed:
  assumes "name e = ''TaskFailedError''" and "snd (GenerateImageWithReferences a w) = [req]"
    and "vendor w req = Rejected e"
  shows "fst (GenerateImageWithReferences a w) = task_failed ''Image generation'' e"
proof -
  from assms(2) obtain key
    where "sdk_import w = None" and "RUNWAY_API_KEY w = Some key" and "key \<noteq> []"
    by (auto simp: GenerateImageWithReferences_def try_catch_snd Let_def split: if_splits option.splits
        dest: with_client_calls)
  with assms show ?thesis
    using generation_catch_failed [of e "''Image generation''"]
    by (auto simp: GenerateImageWithReferences_def try_catch_fst try_catch_snd with_client_key Let_def snd_await
        await_Rejected split: if_splits option.splits)
qed

lemma GenerateVideoFromText_failed:
  assumes "name e = ''TaskFailedError''" and "snd (GenerateVideoFromText a w) = [req]"
    and "vendor w req = Rejected e"
  shows "fst (GenerateVideoFromText a w) = task_failed ''Video generation'' e"
proof -
  from assms(2) obtain key
    where "sdk_import w = None" and "RUNWAY_API_KEY w = Some key" and "key \<noteq> []"
    by (auto simp: GenerateVideoFromText_def try_catch_snd Let_def split: if_splits option.splits
        dest: with_client_calls)
  with assms show ?thesis
    using generation_catch_failed [of e "''Video generation''"]
    by (auto simp: GenerateVideoFromText_def try_catch_fst try_catch_snd with_client_key Let_def snd_await
        await_Rejected split: if_splits option.splits)
qed

lemma GenerateVideoFromImage_failed:
  assumes "name e = ''TaskFailedError''" and "snd (GenerateVideoFromImage a w) = [req]"
    and "vendor w req = Rejected e"
  shows "fst (GenerateVideoFromImage a w) = task_failed ''Video generation'' e"
proof -
  from assms(2) obtain key
    where "sdk_import w = None" and "RUNWAY_API_KEY w = Some key" and "key \<noteq> []"
    by (auto simp: GenerateVideoFromImage_def try_catch_snd Let_def split: if_splits option.splits
        dest: with_client_calls)
  with assms show ?thesis
    using generation_catch_failed [of e "''Video generation''"]
    by (auto simp: GenerateVideoFromImage_def try_catch_fst try_catch_snd with_client_key Let_def snd_await
        await_Rejected split: if_splits option.splits)
qed

lemma GenerateVideoFromVideo_failed:
  assumes "name e = ''TaskFailedError''" and "snd (GenerateVideoFromVideo a w) = [req]"
    and "vendor w req = Rejected e"
  shows "fst (GenerateVideoFromVideo a w) = task_failed ''Video-to-video generation'' e"
proof -
  from assms(2) obtain key
    where "sdk_import w = None" and "RUNWAY_API_KEY w = Some key" and "key \<noteq> []"
    by (auto simp: GenerateVideoFromVideo_def try_catch_snd Let_def split: if_splits option.splits
        dest: with_client_calls)
  with assms show ?thesis
    using generation_catch_failed [of e "''Video-to-video generation''"]
    by (auto simp: GenerateVideoFromVideo_def try_catch_fst try_catch_snd with_client_key Let_def snd_await
        await_Rejected split: if_splits option.splits)
qed

lemma UpscaleVideo_failed:
  assumes "name e = ''TaskFailedError''" and "snd (UpscaleVideo a w) = [req]"
    and "vendor w req = Rejected e"
  shows "fst (UpscaleVideo a w) = task_failed ''Video upscaling'' e"
proof -
  from assms(2) obtain key
    where "sdk_import w = None" and "RUNWAY_API_KEY w = Some key" and "key \<noteq> []"
    by (auto simp: UpscaleVideo_def try_catch_snd Let_def split: if_splits option.splits
        dest: with_client_calls)
  with assms show ?thesis
    using generation_catch_failed [of e "''Video upscaling''"]
    by (auto simp: UpscaleVideo_def try_catch_fst try_catch_snd with_client_key Let_def snd_await
        await_Rejected split: if_splits option.splits)
qed

lemma GenerateImage_task_failed:
  assumes sdk: "sdk_import w = None" and key: "RUNWAY_API_KEY w = Some key" and ne: "key \<noteq> []"
    and name: "name e = ''TaskFailedError''"
  shows
    "(let req = \<lparr>apiKey = key, endpoint = textToImage,
                 argument = Obj ([(''model'', Str (default_to (model a) ''gen4_image'')),
                             (''promptText'', opt_str (promptText a)),
                             (''ratio'', Str (default_to (ratio a) ''1920:1080''))]
                            @ (if seed a \<noteq> None then [(''seed'', opt_num (seed a))] else [])
                            @ (if present (style a) then [(''style'', opt_str (style a))] else []))\<rparr>
      in vendor w req = Rejected e \<longrightarrow>
         GenerateImage a w = (task_failed ''Image generation'' e, [req]))"
proof -
  let ?req = "\<lparr>apiKey = key, endpoint = textToImage,
                 argument = Obj ([(''model'', Str (default_to (model a) ''gen4_image'')),
                             (''promptText'', opt_str (promptText a)),
                             (''ratio'', Str (default_to (ratio a) ''1920:1080''))]
                            @ (if seed a \<noteq> None then [(''seed'', opt_num (seed a))] else [])
                            @ (if present (style a) then [(''style'', opt_str (style a))] else []))\<rparr>"
  have "GenerateImage a w = (task_failed ''Image generation'' e, [?req])"
    if h: "vendor w ?req = Rejected e"
  proof -
    from h have calls: "snd (GenerateImage a w) = [?req]"
      using GenerateImage_request [OF sdk key ne] by simp
    from h have "fst (GenerateImage a w) = task_failed ''Image generation'' e"
      using GenerateImage_failed [OF name calls] by simp
    with calls show ?thesis by (simp add: prod_eq_iff)
  qed
  then show ?thesis by (simp add: Let_def)
qed

lemma GenerateImageWithReferences_task_failed:
  assumes sdk: "sdk_import w = None" and key: "RUNWAY_API_KEY w = Some key" and ne: "key \<noteq> []"
    and name: "name e = ''TaskFailedError''"
  shows
    "(let req = \<lparr>apiKey = key, endpoint = textToImage,
                 argument = Obj ([(''model'', Str (default_to (model a) ''gen4_image'')),
                             (''promptText'', opt_str (promptText a)),
                             (''ratio'', Str (default_to (ratio a) ''1920:1080'')),
                             (''referenceImages'', Arr (map js_ref imgs))]
                            @ (if seed a \<noteq> None then [(''seed'', opt_num (seed a))] else []))\<rparr>
      in referenceImages a = Some imgs \<and> imgs \<noteq> [] \<and> (\<forall>img\<in>set imgs. present (uri img))
            \<and> vendor w req = Rejected e \<longrightarrow>
         GenerateImageWithReferences a w = (task_failed ''Image generation'' e, [req]))"
proof -
  let ?req = "\<lparr>apiKey = key, endpoint = textToImage,
                 argument = Obj ([(''model'', Str (default_to (model a) ''gen4_image'')),
                             (''promptText'', opt_str (promptText a)),
                             (''ratio'', Str (default_to (ratio a) ''1920:1080'')),
                             (''referenceImages'', Arr (map js_ref imgs))]
                            @ (if seed a \<noteq> None then [(''seed'', opt_num (seed a))] else []))\<rparr>"
  have "GenerateImageWithReferences a w = (task_failed ''Image generation'' e, [?req])"
    if h: "referenceImages a = Some imgs \<and> imgs \<noteq> [] \<and> (\<forall>img\<in>set imgs. present (uri img))
      \<and> vendor w ?req = Rejected e"
  proof -
    from h have calls: "snd (GenerateImageWithReferences a w) = [?req]"
      using GenerateImageWithReferences_request [OF _ _ _ sdk key ne] by simp
    from h have "fst (GenerateImageWithReferences a w) = task_failed ''Image generation'' e"
      using GenerateImageWithReferences_failed [OF name calls] by simp
    with calls show ?thesis by (simp add: prod_eq_iff)
  qed
  then show ?thesis by (simp add: Let_def)
qed

lemma GenerateVideoFromText_task_failed:
  assumes sdk: "sdk_import w = None" and key: "RUNWAY_API_KEY w = Some key" and ne: "key \<noteq> []"
    and name: "name e = ''TaskFailedError''"
  shows
    "(let req = \<lparr>apiKey = key, endpoint = textToVideo,
                 argument = Obj ([(''model'', Str (default_to (model a) ''gen4_turbo'')),
                             (''promptText'', opt_str (promptText a)),
                             (''ratio'', Str (default_to (ratio a) ''1280:720'')),
                             (''duration'', Num (default_to (duration a) 5))]
                            @ (if seed a \<noteq> None then [(''seed'', opt_num (seed a))] else []))\<rparr>
      in vendor w req = Rejected e \<longrightarrow>
         GenerateVideoFromText a w = (task_failed ''Video generation'' e, [req]))"
proof -
  let ?req = "\<lparr>apiKey = key, endpoint = textToVideo,
                 argument = Obj ([(''model'', Str (default_to (model a) ''gen4_turbo'')),
                             (''promptText'', opt_str (promptText a)),
                             (''ratio'', Str (default_to (ratio a) ''1280:720'')),
                             (''duration'', Num (default_to (duration a) 5))]
                            @ (if seed a \<noteq> None then [(''seed'', opt_num (seed a))] else []))\<rparr>"
  have "GenerateVideoFromText a w = (task_failed ''Video generation'' e, [?req])"
    if h: "vendor w ?req = Rejected e"
  proof -
    from h have calls: "snd (GenerateVideoFromText a w) = [?req]"
      using GenerateVideoFromText_request [OF sdk key ne] by simp
    from h have "fst (GenerateVideoFromText a w) = task_failed ''Video generation'' e"
      using GenerateVideoFromText_failed [OF name calls] by simp
    with calls show ?thesis by (simp add: prod_eq_iff)
  qed
  then show ?thesis by (simp add: Let_def)
qed

lemma GenerateVideoFromImage_task_failed:
  assumes sdk: "sdk_import w = None" and key: "RUNWAY_API_KEY w = Some key" and ne: "key \<noteq> []"
    and name: "name e = ''TaskFailedError''"
  shows
    "(let req = \<lparr>apiKey = key, endpoint = imageToVideo,
                 argument = Obj ([(''model'', Str (default_to (model a) ''gen4_turbo'')),
                             (''promptImage'', opt_str (promptImage a)),
                             (''ratio'', Str (default_to (ratio a) ''1280:720'')),
                             (''duration'', Num (default_to (duration a) 5))]
                            @ (if present (promptText a)
                               then [(''promptText'', opt_str (promptText a))] else [])
                            @ (if seed a \<noteq> None then [(''seed'', opt_num (seed a))] else []))\<rparr>
      in present (promptImage a)
            \<and> vendor w req = Rejected e \<longrightarrow>
         GenerateVideoFromImage a w = (task_failed ''Video generation'' e, [req]))"
proof -
  let ?req = "\<lparr>apiKey = key, endpoint = imageToVideo,
                 argument = Obj ([(''model'', Str (default_to (model a) ''gen4_turbo'')),
                             (''promptImage'', opt_str (promptImage a)),
                             (''ratio'', Str (default_to (ratio a) ''1280:720'')),
                             (''duration'', Num (default_to (duration a) 5))]
                            @ (if present (promptText a)
                               then [(''promptText'', opt_str (promptText a))] else [])
                            @ (if seed a \<noteq> None then [(''seed'', opt_num (seed a))] else []))\<rparr>"
  have "GenerateVideoFromImage a w = (task_failed ''Video generation'' e, [?req])"
    if h: "present (promptImage a)
      \<and> vendor w ?req = Rejected e"
  proof -
    from h have calls: "snd (GenerateVideoFromImage a w) = [?req]"
      using GenerateVideoFromImage_request [OF _ sdk key ne] by simp
    from h have "fst (GenerateVideoFromImage a w) = task_failed ''Video generation'' e"
      using GenerateVideoFromImage_failed [OF name calls] by simp
    with calls show ?thesis by (simp add: prod_eq_iff)
  qed
  then show ?thesis by (simp add: Let_def)
qed

lemma GenerateVideoFromVideo_task_failed:
  assumes sdk: "sdk_import w = None" and key: "RUNWAY_API_KEY w = Some key" and ne: "key \<noteq> []"
    and name: "name e = ''TaskFailedError''"
  shows
    "(let req = \<lparr>apiKey = key, endpoint = videoToVideo,
                 argument = Obj ([(''model'', Str (default_to (model a) ''gen4_turbo'')),
                             (''promptVideo'', opt_str (promptVideo a)),
                             (''promptText'', opt_str (promptText a)),
                             (''ratio'', Str (default_to (ratio a) ''1280:720'')),
                             (''duration'', Num (default_to (duration a) 5))]
                            @ (if length (default_to (referenceImages a) []) > 0
                               then [(''referenceImages'',
                                      Arr (map js_ref (default_to (referenceImages a) [])))]
                               else [])
                            @ (if seed a \<noteq> None then [(''seed'', opt_num (seed a))] else []))\<rparr>
      in present (promptVideo a) \<and> present (promptText a)
            \<and> (\<forall>img\<in>set (default_to (referenceImages a) []). present (uri img))
            \<and> vendor w req = Rejected e \<longrightarrow>
         GenerateVideoFromVideo a w = (task_failed ''Video-to-video generation'' e, [req]))"
proof -
  let ?req = "\<lparr>apiKey = key, endpoint = videoToVideo,
                 argument = Obj ([(''model'', Str (default_to (model a) ''gen4_turbo'')),
                             (''promptVideo'', opt_str (promptVideo a)),
                             (''promptText'', opt_str (promptText a)),
                             (''ratio'', Str (default_to (ratio a) ''1280:720'')),
                             (''duration'', Num (default_to (duration a) 5))]
                            @ (if length (default_to (referenceImages a) []) > 0
                               then [(''referenceImages'',
                                      Arr (map js_ref (default_to (referenceImages a) [])))]
                               else [])
                            @ (if seed a \<noteq> None then [(''seed'', opt_num (seed a))] else []))\<rparr>"
  have "GenerateVideoFromVideo a w = (task_failed ''Video-to-video generation'' e, [?req])"
    if h: "present (promptVideo a) \<and> present (promptText a)
            \<and> (\<forall>img\<in>set (default_to (referenceImages a) []). present (uri img))
      \<and> vendor w ?req = Rejected e"
  proof -
    from h have calls: "snd (GenerateVideoFromVideo a w) = [?req]"
      using GenerateVideoFromVideo_request [OF _ _ _ sdk key ne] by simp
    from h have "fst (GenerateVideoFromVideo a w) = task_failed ''Video-to-video generation'' e"
      using GenerateVideoFromVideo_failed [OF name calls] by simp
    with calls show ?thesis by (simp add: prod_eq_iff)
  qed
  then show ?thesis by (simp add: Let_def)
qed

lemma UpscaleVideo_task_failed:
  assumes sdk: "sdk_import w = None" and key: "RUNWAY_API_KEY w = Some key" and ne: "key \<noteq> []"
    and name: "name e = ''TaskFailedError''"
  shows
    "(let req = \<lparr>apiKey = key, endpoint = videoUpscale,
                 argument = Obj [(''model'', Str (default_to (model a) ''upscale_video'')),
                            (''promptVideo'', opt_str (promptVideo a))]\<rparr>
      in present (promptVideo a)
            \<and> vendor w req = Rejected e \<longrightarrow>
         UpscaleVideo a w = (task_failed ''Video upscaling'' e, [req]))"
proof -
  let ?req = "\<lparr>apiKey = key, endpoint = videoUpscale,
                 argument = Obj [(''model'', Str (default_to (model a) ''upscale_video'')),
                            (''promptVideo'', opt_str (promptVideo a))]\<rparr>"
  have "UpscaleVideo a w = (task_failed ''Video upscaling'' e, [?req])"
    if h: "present (promptVideo a)
      \<and> vendor w ?req = Rejected e"
  proof -
    from h have calls: "snd (UpscaleVideo a w) = [?req]"
      using UpscaleVideo_request [OF _ sdk key ne] by simp
    from h have "fst (UpscaleVideo a w) = task_failed ''Video upscaling'' e"
      using UpscaleVideo_failed [OF name calls] by simp
    with calls show ?thesis by (simp add: prod_eq_iff)
  qed
  then show ?thesis by (simp add: Let_def)
qed

text \<open>
  C5. Let the SDK module be loaded and the credential set. For each of the six generation
  handlers whose local checks pass: when the vendor rejects the request of the handler
  with an error named \<^verbatim>\<open>TaskFailedError\<close>, the handler has issued that one request and
  returns \<^verbatim>\<open>success: false\<close> with the error \<^verbatim>\<open><operation> task failed\<close>
  (\<^verbatim>\<open>Image generation\<close>, \<^verbatim>\<open>Video generation\<close>, \<^verbatim>\<open>Video-to-video generation\<close>,
  \<^verbatim>\<open>Video upscaling\<close>), \<^verbatim>\<open>details\<close> the \<^verbatim>\<open>taskDetails\<close> of the error, and \<^verbatim>\<open>taskId\<close>
  the \<^verbatim>\<open>id\<close> of these details (\<^verbatim>\<open>undefined\<close> when there are none).
\<close>

theorem generation_task_failed:
  assumes "sdk_import w = None" and "RUNWAY_API_KEY w = Some key" and "key \<noteq> []"
    and "name e = ''TaskFailedError''"
  shows
    "(let req = \<lparr>apiKey = key, endpoint = textToImage,
                 argument = Obj ([(''model'', Str (default_to (model a) ''gen4_image'')),
                             (''promptText'', opt_str (promptText a)),
                             (''ratio'', Str (default_to (ratio a) ''1920:1080''))]
                            @ (if seed a \<noteq> None then [(''seed'', opt_num (seed a))] else [])
                            @ (if present (style a) then [(''style'', opt_str (style a))] else []))\<rparr>
      in vendor w req = Rejected e \<longrightarrow>
         GenerateImage a w = (task_failed ''Image generation'' e, [req]))
     \<and> (let req = \<lparr>apiKey = key, endpoint = textToImage,
                 argument = Obj ([(''model'', Str (default_to (model a) ''gen4_image'')),
                             (''promptText'', opt_str (promptText a)),
                             (''ratio'', Str (default_to (ratio a) ''1920:1080'')),
                             (''referenceImages'', Arr (map js_ref imgs))]
                            @ (if seed a \<noteq> None then [(''seed'', opt_num (seed a))] else []))\<rparr>
      in referenceImages a = Some imgs \<and> imgs \<noteq> [] \<and> (\<forall>img\<in>set imgs. present (uri img))
            \<and> vendor w req = Rejected e \<longrightarrow>
         GenerateImageWithReferences a w = (task_failed ''Image generation'' e, [req]))
     \<and> (let req = \<lparr>apiKey = key, endpoint = textToVideo,
                 argument = Obj ([(''model'', Str (default_to (model a) ''gen4_turbo'')),
                             (''promptText'', opt_str (promptText a)),
                             (''ratio'', Str (default_to (ratio a) ''1280:720'')),
                             (''duration'', Num (default_to (duration a) 5))]
                            @ (if seed a \<noteq> None then [(''seed'', opt_num (seed a))] else []))\<rparr>
      in vendor w req = Rejected e \<longrightarrow>
         GenerateVideoFromText a w = (task_failed ''Video generation'' e, [req]))
     \<and> (let req = \<lparr>apiKey = key, endpoint = imageToVideo,
                 argument = Obj ([(''model'', Str (default_to (model a) ''gen4_turbo'')),
                             (''promptImage'', opt_str (promptImage a)),
                             (''ratio'', Str (default_to (ratio a) ''1280:720'')),
                             (''duration'', Num (default_to (duration a) 5))]
                            @ (if present (promptText a)
                               then [(''promptText'', opt_str (promptText a))] else [])
                            @ (if seed a \<noteq> None then [(''seed'', opt_num (seed a))] else []))\<rparr>
      in present (promptImage a)
            \<and> vendor w req = Rejected e \<longrightarrow>
         GenerateVideoFromImage a w = (task_failed ''Video generation'' e, [req]))
     \<and> (let req = \<lparr>apiKey = key, endpoint = videoToVideo,
                 argument = Obj ([(''model'', Str (default_to (model a) ''gen4_turbo'')),
                             (''promptVideo'', opt_str (promptVideo a)),
                             (''promptText'', opt_str (promptText a)),
                             (''ratio'', Str (default_to (ratio a) ''1280:720'')),
                             (''duration'', Num (default_to (duration a) 5))]
                            @ (if length (default_to (referenceImages a) []) > 0
                               then [(''referenceImages'',
                                      Arr (map js_ref (default_to (referenceImages a) [])))]
                               else [])
                            @ (if seed a \<noteq> None then [(''seed'', opt_num (seed a))] else []))\<rparr>
      in present (promptVideo a) \<and> present (promptText a)
            \<and> (\<forall>img\<in>set (default_to (referenceImages a) []). present (uri img))
            \<and> vendor w req = Rejected e \<longrightarrow>
         GenerateVideoFromVideo a w = (task_failed ''Video-to-video generation'' e, [req]))
     \<and> (let req = \<lparr>apiKey = key, endpoint = videoUpscale,
                 argument = Obj [(''model'', Str (default_to (model a) ''upscale_video'')),
                            (''promptVideo'', opt_str (promptVideo a))]\<rparr>
      in present (promptVideo a)
            \<and> vendor w req = Rejected e \<longrightarrow>
         UpscaleVideo a w = (task_failed ''Video upscaling'' e, [req]))"
  by (intro conjI
      GenerateImage_task_failed [OF assms]
      GenerateImageWithReferences_task_failed [OF assms]
      GenerateVideoFromText_task_failed [OF assms]
      GenerateVideoFromImage_task_failed [OF assms]
      GenerateVideoFromVideo_task_failed [OF assms]
      UpscaleVideo_task_failed [OF assms])

theorem generation_task_failed_witness:
  "name task_failed_error = ''TaskFailedError''
   \<and> GenerateImage full_args (mock_rejecting task_failed_error) =
       (task_failed ''Image generation'' task_failed_error,
        [\<lparr>apiKey = ''key_test'', endpoint = textToImage,
          argument = Obj [(''model'', Str ''gen4_image''),
                          (''promptText'', Str ''a red fox in snow''),
                          (''ratio'', Str ''1920:1080'')]\<rparr>])
   \<and> GenerateImageWithReferences full_args (mock_rejecting task_failed_error) =
       (task_failed ''Image generation'' task_failed_error,
        [\<lparr>apiKey = ''key_test'', endpoint = textToImage,
          argument = Obj [(''model'', Str ''gen4_image''),
                          (''promptText'', Str ''a red fox in snow''),
                          (''ratio'', Str ''1920:1080''),
                          (''referenceImages'',
                           Arr [Obj [(''uri'', Str ''https://example.com/ref0.jpg'')]])]\<rparr>])
   \<and> GenerateVideoFromText full_args (mock_rejecting task_failed_error) =
       (task_failed ''Video generation'' task_failed_error,
        [\<lparr>apiKey = ''key_test'', endpoint = textToVideo,
          argument = Obj [(''model'', Str ''gen4_turbo''),
                          (''promptText'', Str ''a red fox in snow''),
                          (''ratio'', Str ''1280:720''),
                          (''duration'', Num 5)]\<rparr>])
   \<and> GenerateVideoFromImage full_args (mock_rejecting task_failed_error) =
       (task_failed ''Video generation'' task_failed_error,
        [\<lparr>apiKey = ''key_test'', endpoint = imageToVideo,
          argument = Obj [(''model'', Str ''gen4_turbo''),
                          (''promptImage'', Str ''https://example.com/my-image.jpg''),
                          (''ratio'', Str ''1280:720''),
                          (''duration'', Num 5),
                          (''promptText'', Str ''a red fox in snow'')]\<rparr>])
   \<and> GenerateVideoFromVideo full_args (mock_rejecting task_failed_error) =
       (task_failed ''Video-to-video generation'' task_failed_error,
        [\<lparr>apiKey = ''key_test'', endpoint = videoToVideo,
          argument = Obj [(''model'', Str ''gen4_turbo''),
                          (''promptVideo'', Str ''https://example.com/my-video.mp4''),
                          (''promptText'', Str ''a red fox in snow''),
                          (''ratio'', Str ''1280:720''),
                          (''duration'', Num 5),
                          (''referenceImages'',
                           Arr [Obj [(''uri'', Str ''https://example.com/ref0.jpg'')]])]\<rparr>])
   \<and> UpscaleVideo full_args (mock_rejecting task_failed_error) =
       (task_failed ''Video upscaling'' task_failed_error,
        [\<lparr>apiKey = ''key_test'', endpoint = videoUpscale,
          argument = Obj [(''model'', Str ''upscale_video''),
                         (''promptVideo'', Str ''https://example.com/my-video.mp4'')]\<rparr>])
   \<and> task_failed ''Video upscaling'' task_failed_error =
       [(''success'', Bool False),
        (''error'', Str ''Video upscaling task failed''),
        (''details'', Obj [(''id'', Str ''task_1''), (''status'', Str ''FAILED'')]),
        (''taskId'', Str ''task_1'')]"
  using generation_task_failed
      [where w = "mock_rejecting task_failed_error" and key = "''key_test''"
         and e = task_failed_error and a = full_args and imgs = "[example_image 0]"]
  by (simp add: Let_def example_defs opt_str_def opt_num_def default_to_def js_ref_def
      decimal.simps task_failed_def opt_field_def lookup_def)

section \<open>Completed generation tasks\<close>

lemma GenerateImage_completed:
  assumes "snd (GenerateImage a w) = [req]" and "vendor w req = Resolved task"
    and "\<not> nullish task"
  shows "fst (GenerateImage a w) =
    generation_success ''imageUrl''
      [''model'', ''promptText'', ''ratio''] task"
proof -
  from assms(1) obtain key
    where "sdk_import w = None" and "RUNWAY_API_KEY w = Some key" and "key \<noteq> []"
    by (auto simp: GenerateImage_def try_catch_snd Let_def split: if_splits option.splits
        dest: with_client_calls)
  with assms show ?thesis
    by (auto simp: GenerateImage_def try_catch_fst try_catch_snd with_client_key Let_def snd_await
        await_Resolved generation_success_def split: if_splits option.splits)
qed

lemma GenerateImageWithReferences_completed:
  assumes "snd (GenerateImageWithReferences a w) = [req]" and "vendor w req = Resolved task"
    and "\<not> nullish task"
  shows "fst (GenerateImageWithReferences a w) =
    generation_success ''imageUrl''
      [''model'', ''promptText'', ''ratio'', ''referenceImages''] task"
proof -
  from assms(1) obtain key
    where "sdk_import w = None" and "RUNWAY_API_KEY w = Some key" and "key \<noteq> []"
    by (auto simp: GenerateImageWithReferences_def try_catch_snd Let_def split: if_splits option.splits
        dest: with_client_calls)
  with assms show ?thesis
    by (auto simp: GenerateImageWithReferences_def try_catch_fst try_catch_snd with_client_key Let_def snd_await
        await_Resolved generation_success_def split: if_splits option.splits)
qed

lemma GenerateVideoFromText_completed:
  assumes "snd (GenerateVideoFromText a w) = [req]" and "vendor w req = Resolved task"
    and "\<not> nullish task"
  shows "fst (GenerateVideoFromText a w) =
    generation_success ''videoUrl''
      [''model'', ''promptText'', ''ratio'', ''duration''] task"
proof -
  from assms(1) obtain key
    where "sdk_import w = None" and "RUNWAY_API_KEY w = Some key" and "key \<noteq> []"
    by (auto simp: GenerateVideoFromText_def try_catch_snd Let_def split: if_splits option.splits
        dest: with_client_calls)
  with assms show ?thesis
    by (auto simp: GenerateVideoFromText_def try_catch_fst try_catch_snd with_client_key Let_def snd_await
        await_Resolved generation_success_def split: if_splits option.splits)
qed

lemma GenerateVideoFromImage_completed:
  assumes "snd (GenerateVideoFromImage a w) = [req]" and "vendor w req = Resolved task"
    and "\<not> nullish task"
  shows "fst (GenerateVideoFromImage a w) =
    generation_success ''videoUrl''
      [''model'', ''promptImage'', ''promptText'', ''ratio'', ''duration''] task"
proof -
  from assms(1) obtain key
    where "sdk_import w = None" and "RUNWAY_API_KEY w = Some key" and "key \<noteq> []"
    by (auto simp: GenerateVideoFromImage_def try_catch_snd Let_def split: if_splits option.splits
        dest: with_client_calls)
  with assms show ?thesis
    by (auto simp: GenerateVideoFromImage_def try_catch_fst try_catch_snd with_client_key Let_def snd_await
        await_Resolved generation_success_def split: if_splits option.splits)
qed

lemma GenerateVideoFromVideo_completed:
  assumes "snd (GenerateVideoFromVideo a w) = [req]" and "vendor w req = Resolved task"
    and "\<not> nullish task"
  shows "fst (GenerateVideoFromVideo a w) =
    generation_success ''videoUrl''
      [''model'', ''promptVideo'', ''promptText'', ''referenceImages'', ''ratio'', ''duration''] task"
proof -
  from assms(1) obtain key
    where "sdk_import w = None" and "RUNWAY_API_KEY w = Some key" and "key \<noteq> []"
    by (auto simp: GenerateVideoFromVideo_def try_catch_snd Let_def split: if_splits option.splits
        dest: with_client_calls)
  with assms show ?thesis
    by (auto simp: GenerateVideoFromVideo_def try_catch_fst try_catch_snd with_client_key Let_def snd_await
        await_Resolved generation_success_def split: if_splits option.splits)
qed

lemma UpscaleVideo_completed:
  assumes "snd (UpscaleVideo a w) = [req]" and "vendor w req = Resolved task"
    and "\<not> nullish task"
  shows "fst (UpscaleVideo a w) =
    generation_success ''videoUrl''
      [''model'', ''promptVideo''] task"
proof -
  from assms(1) obtain key
    where "sdk_import w = None" and "RUNWAY_API_KEY w = Some key" and "key \<noteq> []"
    by (auto simp: UpscaleVideo_def try_catch_snd Let_def split: if_splits option.splits
        dest: with_client_calls)
  with assms show ?thesis
    by (auto simp: UpscaleVideo_def try_catch_fst try_catch_snd with_client_key Let_def snd_await
        await_Resolved generation_success_def split: if_splits option.splits)
qed

lemma GenerateImage_task_completed:
  assumes sdk: "sdk_import w = None" and key: "RUNWAY_API_KEY w = Some key" and ne: "key \<noteq> []"
    and task: "\<not> nullish task"
  shows
    "(let req = \<lparr>apiKey = key, endpoint = textToImage,
                 argument = Obj ([(''model'', Str (default_to (model a) ''gen4_image'')),
                             (''promptText'', opt_str (promptText a)),
                             (''ratio'', Str (default_to (ratio a) ''1920:1080''))]
                            @ (if seed a \<noteq> None then [(''seed'', opt_num (seed a))] else [])
                            @ (if present (style a) then [(''style'', opt_str (style a))] else []))\<rparr>
      in vendor w req = Resolved task \<longrightarrow>
         GenerateImage a w = (generation_success ''imageUrl''
              [''model'', ''promptText'', ''ratio''] task, [req]))"
proof -
  let ?req = "\<lparr>apiKey = key, endpoint = textToImage,
                 argument = Obj ([(''model'', Str (default_to (model a) ''gen4_image'')),
                             (''promptText'', opt_str (promptText a)),
                             (''ratio'', Str (default_to (ratio a) ''1920:1080''))]
                            @ (if seed a \<noteq> None then [(''seed'', opt_num (seed a))] else [])
                            @ (if present (style a) then [(''style'', opt_str (style a))] else []))\<rparr>"
  have "GenerateImage a w = (generation_success ''imageUrl''
              [''model'', ''promptText'', ''ratio''] task, [?req])"
    if h: "vendor w ?req = Resolved task"
  proof -
    from h have calls: "snd (GenerateImage a w) = [?req]"
      using GenerateImage_request [OF sdk key ne] by simp
    from h have "fst (GenerateImage a w) = generation_success ''imageUrl''
              [''model'', ''promptText'', ''ratio''] task"
      using GenerateImage_completed [OF calls _ task] by simp
    with calls show ?thesis by (simp add: prod_eq_iff)
  qed
  then show ?thesis by (simp add: Let_def)
qed

lemma GenerateImageWithReferences_task_completed:
  assumes sdk: "sdk_import w = None" and key: "RUNWAY_API_KEY w = Some key" and ne: "key \<noteq> []"
    and task: "\<not> nullish task"
  shows
    "(let req = \<lparr>apiKey = key, endpoint = textToImage,
                 argument = Obj ([(''model'', Str (default_to (model a) ''gen4_image'')),
                             (''promptText'', opt_str (promptText a)),
                             (''ratio'', Str (default_to (ratio a) ''1920:1080'')),
                             (''referenceImages'', Arr (map js_ref imgs))]
                            @ (if seed a \<noteq> None then [(''seed'', opt_num (seed a))] else []))\<rparr>
      in referenceImages a = Some imgs \<and> imgs \<noteq> [] \<and> (\<forall>img\<in>set imgs. present (uri img))
            \<and> vendor w req = Resolved task \<longrightarrow>
         GenerateImageWithReferences a w = (generation_success ''imageUrl''
              [''model'', ''promptText'', ''ratio'', ''referenceImages''] task, [req]))"
proof -
  let ?req = "\<lparr>apiKey = key, endpoint = textToImage,
                 argument = Obj ([(''model'', Str (default_to (model a) ''gen4_image'')),
                             (''promptText'', opt_str (promptText a)),
                             (''ratio'', Str (default_to (ratio a) ''1920:1080'')),
                             (''referenceImages'', Arr (map js_ref imgs))]
                            @ (if seed a \<noteq> None then [(''seed'', opt_num (seed a))] else []))\<rparr>"
  have "GenerateImageWithReferences a w = (generation_success ''imageUrl''
              [''model'', ''promptText'', ''ratio'', ''referenceImages''] task, [?req])"
    if h: "referenceImages a = Some imgs \<and> imgs \<noteq> [] \<and> (\<forall>img\<in>set imgs. present (uri img))
      \<and> vendor w ?req = Resolved task"
  proof -
    from h have calls: "snd (GenerateImageWithReferences a w) = [?req]"
      using GenerateImageWithReferences_request [OF _ _ _ sdk key ne] by simp
    from h have "fst (GenerateImageWithReferences a w) = generation_success ''imageUrl''
              [''model'', ''promptText'', ''ratio'', ''referenceImages''] task"
      using GenerateImageWithReferences_completed [OF calls _ task] by simp
    with calls show ?thesis by (simp add: prod_eq_iff)
  qed
  then show ?thesis by (simp add: Let_def)
qed

lemma GenerateVideoFromText_task_completed:
  assumes sdk: "sdk_import w = None" and key: "RUNWAY_API_KEY w = Some key" and ne: "key \<noteq> []"
    and task: "\<not> nullish task"
  shows
    "(let req = \<lparr>apiKey = key, endpoint = textToVideo,
                 argument = Obj ([(''model'', Str (default_to (model a) ''gen4_turbo'')),
                             (''promptText'', opt_str (promptText a)),
                             (''ratio'', Str (default_to (ratio a) ''1280:720'')),
                             (''duration'', Num (default_to (duration a) 5))]
                            @ (if seed a \<noteq> None then [(''seed'', opt_num (seed a))] else []))\<rparr>
      in vendor w req = Resolved task \<longrightarrow>
         GenerateVideoFromText a w = (generation_success ''videoUrl''
              [''model'', ''promptText'', ''ratio'', ''duration''] task, [req]))"
proof -
  let ?req = "\<lparr>apiKey = key, endpoint = textToVideo,
                 argument = Obj ([(''model'', Str (default_to (model a) ''gen4_turbo'')),
                             (''promptText'', opt_str (promptText a)),
                             (''ratio'', Str (default_to (ratio a) ''1280:720'')),
                             (''duration'', Num (default_to (duration a) 5))]
                            @ (if seed a \<noteq> None then [(''seed'', opt_num (seed a))] else []))\<rparr>"
  have "GenerateVideoFromText a w = (generation_success ''videoUrl''
              [''model'', ''promptText'', ''ratio'', ''duration''] task, [?req])"
    if h: "vendor w ?req = Resolved task"
  proof -
    from h have calls: "snd (GenerateVideoFromText a w) = [?req]"
      using GenerateVideoFromText_request [OF sdk key ne] by simp
    from h have "fst (GenerateVideoFromText a w) = generation_success ''videoUrl''
              [''model'', ''promptText'', ''ratio'', ''duration''] task"
      using GenerateVideoFromText_completed [OF calls _ task] by simp
    with calls show ?thesis by (simp add: prod_eq_iff)
  qed
  then show ?thesis by (simp add: Let_def)
qed

lemma GenerateVideoFromImage_task_completed:
  assumes sdk: "sdk_import w = None" and key: "RUNWAY_API_KEY w = Some key" and ne: "key \<noteq> []"
    and task: "\<not> nullish task"
  shows
    "(let req = \<lparr>apiKey = key, endpoint = imageToVideo,
                 argument = Obj ([(''model'', Str (default_to (model a) ''gen4_turbo'')),
                             (''promptImage'', opt_str (promptImage a)),
                             (''ratio'', Str (default_to (ratio a) ''1280:720'')),
                             (''duration'', Num (default_to (duration a) 5))]
                            @ (if present (promptText a)
                               then [(''promptText'', opt_str (promptText a))] else [])
                            @ (if seed a \<noteq> None then [(''seed'', opt_num (seed a))] else []))\<rparr>
      in present (promptImage a)
            \<and> vendor w req = Resolved task \<longrightarrow>
         GenerateVideoFromImage a w = (generation_success ''videoUrl''
              [''model'', ''promptImage'', ''promptText'', ''ratio'', ''duration''] task, [req]))"
proof -
  let ?req = "\<lparr>apiKey = key, endpoint = imageToVideo,
                 argument = Obj ([(''model'', Str (default_to (model a) ''gen4_turbo'')),
                             (''promptImage'', opt_str (promptImage a)),
                             (''ratio'', Str (default_to (ratio a) ''1280:720'')),
                             (''duration'', Num (default_to (duration a) 5))]
                            @ (if present (promptText a)
                               then [(''promptText'', opt_str (promptText a))] else [])
                            @ (if seed a \<noteq> None then [(''seed'', opt_num (seed a))] else []))\<rparr>"
  have "GenerateVideoFromImage a w = (generation_success ''videoUrl''
              [''model'', ''promptImage'', ''promptText'', ''ratio'', ''duration''] task, [?req])"
    if h: "present (promptImage a)
      \<and> vendor w ?req = Resolved task"
  proof -
    from h have calls: "snd (GenerateVideoFromImage a w) = [?req]"
      using GenerateVideoFromImage_request [OF _ sdk key ne] by simp
    from h have "fst (GenerateVideoFromImage a w) = generation_success ''videoUrl''
              [''model'', ''promptImage'', ''promptText'', ''ratio'', ''duration''] task"
      using GenerateVideoFromImage_completed [OF calls _ task] by simp
    with calls show ?thesis by (simp add: prod_eq_iff)
  qed
  then show ?thesis by (simp add: Let_def)
qed

lemma GenerateVideoFromVideo_task_completed:
  assumes sdk: "sdk_import w = None" and key: "RUNWAY_API_KEY w = Some key" and ne: "key \<noteq> []"
    and task: "\<not> nullish task"
  shows
    "(let req = \<lparr>apiKey = key, endpoint = videoToVideo,
                 argument = Obj ([(''model'', Str (default_to (model a) ''gen4_turbo'')),
                             (''promptVideo'', opt_str (promptVideo a)),
                             (''promptText'', opt_str (promptText a)),
                             (''ratio'', Str (default_to (ratio a) ''1280:720'')),
                             (''duration'', Num (default_to (duration a) 5))]
                            @ (if length (default_to (referenceImages a) []) > 0
                               then [(''referenceImages'',
                                      Arr (map js_ref (default_to (referenceImages a) [])))]
                               else [])
                            @ (if seed a \<noteq> None then [(''seed'', opt_num (seed a))] else []))\<rparr>
      in present (promptVideo a) \<and> present (promptText a)
            \<and> (\<forall>img\<in>set (default_to (referenceImages a) []). present (uri img))
            \<and> vendor w req = Resolved task \<longrightarrow>
         GenerateVideoFromVideo a w = (generation_success ''videoUrl''
              [''model'', ''promptVideo'', ''promptText'', ''referenceImages'', ''ratio'', ''duration''] task, [req]))"
proof -
  let ?req = "\<lparr>apiKey = key, endpoint = videoToVideo,
                 argument = Obj ([(''model'', Str (default_to (model a) ''gen4_turbo'')),
                             (''promptVideo'', opt_str (promptVideo a)),
                             (''promptText'', opt_str (promptText a)),
                             (''ratio'', Str (default_to (ratio a) ''1280:720'')),
                             (''duration'', Num (default_to (duration a) 5))]
                            @ (if length (default_to (referenceImages a) []) > 0
                               then [(''referenceImages'',
                                      Arr (map js_ref (default_to (referenceImages a) [])))]
                               else [])
                            @ (if seed a \<noteq> None then [(''seed'', opt_num (seed a))] else []))\<rparr>"
  have "GenerateVideoFromVideo a w = (generation_success ''videoUrl''
              [''model'', ''promptVideo'', ''promptText'', ''referenceImages'', ''ratio'', ''duration''] task, [?req])"
    if h: "present (promptVideo a) \<and> present (promptText a)
            \<and> (\<forall>img\<in>set (default_to (referenceImages a) []). present (uri img))
      \<and> vendor w ?req = Resolved task"
  proof -
    from h have calls: "snd (GenerateVideoFromVideo a w) = [?req]"
      using GenerateVideoFromVideo_request [OF _ _ _ sdk key ne] by simp
    from h have "fst (GenerateVideoFromVideo a w) = generation_success ''videoUrl''
              [''model'', ''promptVideo'', ''promptText'', ''referenceImages'', ''ratio'', ''duration''] task"
      using GenerateVideoFromVideo_completed [OF calls _ task] by simp
    with calls show ?thesis by (simp add: prod_eq_iff)
  qed
  then show ?thesis by (simp add: Let_def)
qed

lemma UpscaleVideo_task_completed:
  assumes sdk: "sdk_import w = None" and key: "RUNWAY_API_KEY w = Some key" and ne: "key \<noteq> []"
    and task: "\<not> nullish task"
  shows
    "(let req = \<lparr>apiKey = key, endpoint = videoUpscale,
                 argument = Obj [(''model'', Str (default_to (model a) ''upscale_video'')),
                            (''promptVideo'', opt_str (promptVideo a))]\<rparr>
      in present (promptVideo a)
            \<and> vendor w req = Resolved task \<longrightarrow>
         UpscaleVideo a w = (generation_success ''videoUrl''
              [''model'', ''promptVideo''] task, [req]))"
proof -
  let ?req = "\<lparr>apiKey = key, endpoint = videoUpscale,
                 argument = Obj [(''model'', Str (default_to (model a) ''upscale_video'')),
                            (''promptVideo'', opt_str (promptVideo a))]\<rparr>"
  have "UpscaleVideo a w = (generation_success ''videoUrl''
              [''model'', ''promptVideo''] task, [?req])"
    if h: "present (promptVideo a)
      \<and> vendor w ?req = Resolved task"
  proof -
    from h have calls: "snd (UpscaleVideo a w) = [?req]"
      using UpscaleVideo_request [OF _ sdk key ne] by simp
    from h have "fst (UpscaleVideo a w) = generation_success ''videoUrl''
              [''model'', ''promptVideo''] task"
      using UpscaleVideo_completed [OF calls _ task] by simp
    with calls show ?thesis by (simp add: prod_eq_iff)
  qed
  then show ?thesis by (simp add: Let_def)
qed

text \<open>
  C6, as the claim states it, fails in two places. The envelope does not echo the
  parameters of the call: \<^verbatim>\<open>model\<close>, \<^verbatim>\<open>promptText\<close>, \<^verbatim>\<open>ratio\<close> and the like are read from
  the task object the vendor resolved with (\<^verbatim>\<open>promptText: task.promptText\<close>), so for the
  prompt \<^verbatim>\<open>a red fox in snow\<close> and a task that carries no prompt the envelope has
  \<^verbatim>\<open>promptText: undefined\<close>. And the locator is not the first element of every non-empty
  output: \<^verbatim>\<open>task.output && task.output[0] ? task.output[0] : null\<close> gives \<^verbatim>\<open>null\<close> for
  an output that starts with the empty string.
\<close>

theorem input_parameters_not_echoed:
  "GenerateImage (no_args\<lparr>promptText := Some ''a red fox in snow''\<rparr>) (mock_resolving fox_task) =
     ([(''success'', Bool True),
       (''taskId'', Str ''task_1''),
       (''status'', Str ''SUCCEEDED''),
       (''output'', Arr [Str ''https://cdn.example/img1.png'']),
       (''imageUrl'', Str ''https://cdn.example/img1.png''),
       (''createdAt'', Str ''2025-01-01T00:00:00.000Z''),
       (''model'', Undefined),
       (''promptText'', Undefined),
       (''ratio'', Undefined)],
      [\<lparr>apiKey = ''key_test'', endpoint = textToImage,
        argument = Obj [(''model'', Str ''gen4_image''),
                        (''promptText'', Str ''a red fox in snow''),
                        (''ratio'', Str ''1920:1080'')]\<rparr>])
   \<and> lookup (fst (GenerateImage (no_args\<lparr>promptText := Some ''a red fox in snow''\<rparr>)
                     (mock_resolving fox_task))) ''promptText''
       \<noteq> Str ''a red fox in snow''
   \<and> fst (GenerateImage (no_args\<lparr>promptText := Some ''a red fox in snow''\<rparr>)
            (mock_resolving blank_first_task)) =
     [(''success'', Bool True),
      (''taskId'', Str ''task_2''),
      (''status'', Str ''SUCCEEDED''),
      (''output'', Arr [Str [], Str ''https://cdn.example/img2.png'']),
      (''imageUrl'', Null),
      (''createdAt'', Undefined),
      (''model'', Undefined),
      (''promptText'', Undefined),
      (''ratio'', Undefined)]"
  by (simp add: GenerateImage_def try_catch_def with_client_def await_def no_args_def
      mock_resolving_def fox_task_def blank_first_task_def opt_str_def opt_num_def
      default_to_def first_output_def lookup_def)

text \<open>
  C6, amended. Let the SDK module be loaded and the credential set. For each of the six
  generation handlers whose local checks pass: when the vendor resolves the request of
  the handler with a task (a value that is neither \<^verbatim>\<open>null\<close> nor \<^verbatim>\<open>undefined\<close>), the
  handler has issued that one request and returns \<^verbatim>\<open>success: true\<close> with \<^verbatim>\<open>taskId\<close>,
  \<^verbatim>\<open>status\<close>, \<^verbatim>\<open>output\<close>, \<^verbatim>\<open>createdAt\<close> and the fields named after the parameters of the
  operation, every one of them copied from the task of the vendor and none from the
  arguments of the call (a property the task does not carry is \<^verbatim>\<open>undefined\<close> in the
  envelope). The locator (\<^verbatim>\<open>imageUrl\<close> or \<^verbatim>\<open>videoUrl\<close>) is the first element of the output
  of the task when the output is an array whose first element is truthy, and \<^verbatim>\<open>null\<close>
  when the output is absent, \<^verbatim>\<open>null\<close>, the empty array, or an array whose first element is
  falsy, as the empty string is.
\<close>

theorem generation_completed:
  assumes "sdk_import w = None" and "RUNWAY_API_KEY w = Some key" and "key \<noteq> []"
    and "\<not> nullish task"
  shows
    "(let req = \<lparr>apiKey = key, endpoint = textToImage,
                 argument = Obj ([(''model'', Str (default_to (model a) ''gen4_image'')),
                             (''promptText'', opt_str (promptText a)),
                             (''ratio'', Str (default_to (ratio a) ''1920:1080''))]
                            @ (if seed a \<noteq> None then [(''seed'', opt_num (seed a))] else [])
                            @ (if present (style a) then [(''style'', opt_str (style a))] else []))\<rparr>
      in vendor w req = Resolved task \<longrightarrow>
         GenerateImage a w = (generation_success ''imageUrl''
              [''model'', ''promptText'', ''ratio''] task, [req]))
     \<and> (let req = \<lparr>apiKey = key, endpoint = textToImage,
                 argument = Obj ([(''model'', Str (default_to (model a) ''gen4_image'')),
                             (''promptText'', opt_str (promptText a)),
                             (''ratio'', Str (default_to (ratio a) ''1920:1080'')),
                             (''referenceImages'', Arr (map js_ref imgs))]
                            @ (if seed a \<noteq> None then [(''seed'', opt_num (seed a))] else []))\<rparr>
      in referenceImages a = Some imgs \<and> imgs \<noteq> [] \<and> (\<forall>img\<in>set imgs. present (uri img))
            \<and> vendor w req = Resolved task \<longrightarrow>
         GenerateImageWithReferences a w = (generation_success ''imageUrl''
              [''model'', ''promptText'', ''ratio'', ''referenceImages''] task, [req]))
     \<and> (let req = \<lparr>apiKey = key, endpoint = textToVideo,
                 argument = Obj ([(''model'', Str (default_to (model a) ''gen4_turbo'')),
                             (''promptText'', opt_str (promptText a)),
                             (''ratio'', Str (default_to (ratio a) ''1280:720'')),
                             (''duration'', Num (default_to (duration a) 5))]
                            @ (if seed a \<noteq> None then [(''seed'', opt_num (seed a))] else []))\<rparr>
      in vendor w req = Resolved task \<longrightarrow>
         GenerateVideoFromText a w = (generation_success ''videoUrl''
              [''model'', ''promptText'', ''ratio'', ''duration''] task, [req]))
     \<and> (let req = \<lparr>apiKey = key, endpoint = imageToVideo,
                 argument = Obj ([(''model'', Str (default_to (model a) ''gen4_turbo'')),
                             (''promptImage'', opt_str (promptImage a)),
                             (''ratio'', Str (default_to (ratio a) ''1280:720'')),
                             (''duration'', Num (default_to (duration a) 5))]
                            @ (if present (promptText a)
                               then [(''promptText'', opt_str (promptText a))] else [])
                            @ (if seed a \<noteq> None then [(''seed'', opt_num (seed a))] else []))\<rparr>
      in present (promptImage a)
            \<and> vendor w req = Resolved task \<longrightarrow>
         GenerateVideoFromImage a w = (generation_success ''videoUrl''
              [''model'', ''promptImage'', ''promptText'', ''ratio'', ''duration''] task, [req]))
     \<and> (let req = \<lparr>apiKey = key, endpoint = videoToVideo,
                 argument = Obj ([(''model'', Str (default_to (model a) ''gen4_turbo'')),
                             (''promptVideo'', opt_str (promptVideo a)),
                             (''promptText'', opt_str (promptText a)),
                             (''ratio'', Str (default_to (ratio a) ''1280:720'')),
                             (''duration'', Num (default_to (duration a) 5))]
                            @ (if length (default_to (referenceImages a) []) > 0
                               then [(''referenceImages'',
                                      Arr (map js_ref (default_to (referenceImages a) [])))]
                               else [])
                            @ (if seed a \<noteq> None then [(''seed'', opt_num (seed a))] else []))\<rparr>
      in present (promptVideo a) \<and> present (promptText a)
            \<and> (\<forall>img\<in>set (default_to (referenceImages a) []). present (uri img))
            \<and> vendor w req = Resolved task \<longrightarrow>
         GenerateVideoFromVideo a w = (generation_success ''videoUrl''
              [''model'', ''promptVideo'', ''promptText'', ''referenceImages'', ''ratio'', ''duration''] task, [req]))
     \<and> (let req = \<lparr>apiKey = key, endpoint = videoUpscale,
                 argument = Obj [(''model'', Str (default_to (model a) ''upscale_video'')),
                            (''promptVideo'', opt_str (promptVideo a))]\<rparr>
      in present (promptVideo a)
            \<and> vendor w req = Resolved task \<longrightarrow>
         UpscaleVideo a w = (generation_success ''videoUrl''
              [''model'', ''promptVideo''] task, [req]))
     \<and> lookup (generation_success ''imageUrl'' copied task) ''imageUrl''
         = first_output (field task ''output'')
     \<and> lookup (generation_success ''videoUrl'' copied task) ''videoUrl''
         = first_output (field task ''output'')
     \<and> (\<forall>x xs. field task ''output'' = Arr (x # xs) \<longrightarrow>
          first_output (field task ''output'') = (if truthy x then x else Null))
     \<and> (field task ''output'' = Undefined \<or> field task ''output'' = Null
          \<or> field task ''output'' = Arr [] \<longrightarrow>
          first_output (field task ''output'') = Null)"
proof -
  have "lookup (generation_success ''imageUrl'' copied task) ''imageUrl''
         = first_output (field task ''output'')"
    and "lookup (generation_success ''videoUrl'' copied task) ''videoUrl''
         = first_output (field task ''output'')"
    by (simp_all add: generation_success_def lookup_def)
  moreover have "\<forall>x xs. field task ''output'' = Arr (x # xs) \<longrightarrow>
      first_output (field task ''output'') = (if truthy x then x else Null)"
    by (simp add: first_output_def)
  moreover have "field task ''output'' = Undefined \<or> field task ''output'' = Null
      \<or> field task ''output'' = Arr [] \<longrightarrow> first_output (field task ''output'') = Null"
    by (auto simp: first_output_def)
  ultimately show ?thesis
    by (intro conjI
      GenerateImage_task_completed [OF assms]
      GenerateImageWithReferences_task_completed [OF assms]
      GenerateVideoFromText_task_completed [OF assms]
      GenerateVideoFromImage_task_completed [OF assms]
      GenerateVideoFromVideo_task_completed [OF assms]
      UpscaleVideo_task_completed [OF assms])
qed

theorem generation_completed_witness:
  "GenerateImage full_args (mock_resolving fox_task) =
       (generation_success ''imageUrl''
          [''model'', ''promptText'', ''ratio''] fox_task,
        [\<lparr>apiKey = ''key_test'', endpoint = textToImage,
          argument = Obj [(''model'', Str ''gen4_image''),
                          (''promptText'', Str ''a red fox in snow''),
                          (''ratio'', Str ''1920:1080'')]\<rparr>])
   \<and> GenerateImageWithReferences full_args (mock_resolving fox_task) =
       (generation_success ''imageUrl''
          [''model'', ''promptText'', ''ratio'', ''referenceImages''] fox_task,
        [\<lparr>apiKey = ''key_test'', endpoint = textToImage,
          argument = Obj [(''model'', Str ''gen4_image''),
                          (''promptText'', Str ''a red fox in snow''),
                          (''ratio'', Str ''1920:1080''),
                          (''referenceImages'',
                           Arr [Obj [(''uri'', Str ''https://example.com/ref0.jpg'')]])]\<rparr>])
   \<and> GenerateVideoFromText full_args (mock_resolving fox_task) =
       (generation_success ''videoUrl''
          [''model'', ''promptText'', ''ratio'', ''duration''] fox_task,
        [\<lparr>apiKey = ''key_test'', endpoint = textToVideo,
          argument = Obj [(''model'', Str ''gen4_turbo''),
                          (''promptText'', Str ''a red fox in snow''),
                          (''ratio'', Str ''1280:720''),
                          (''duration'', Num 5)]\<rparr>])
   \<and> GenerateVideoFromImage full_args (mock_resolving fox_task) =
       (generation_success ''videoUrl''
          [''model'', ''promptImage'', ''promptText'', ''ratio'', ''duration''] fox_task,
        [\<lparr>apiKey = ''key_test'', endpoint = imageToVideo,
          argument = Obj [(''model'', Str ''gen4_turbo''),
                          (''promptImage'', Str ''https://example.com/my-image.jpg''),
                          (''ratio'', Str ''1280:720''),
                          (''duration'', Num 5),
                          (''promptText'', Str ''a red fox in snow'')]\<rparr>])
   \<and> GenerateVideoFromVideo full_args (mock_resolving fox_task) =
       (generation_success ''videoUrl''
          [''model'', ''promptVideo'', ''promptText'', ''referenceImages'', ''ratio'', ''duration''] fox_task,
        [\<lparr>apiKey = ''key_test'', endpoint = videoToVideo,
          argument = Obj [(''model'', Str ''gen4_turbo''),
                          (''promptVideo'', Str ''https://example.com/my-video.mp4''),
                          (''promptText'', Str ''a red fox in snow''),
                          (''ratio'', Str ''1280:720''),
                          (''duration'', Num 5),
                          (''referenceImages'',
                           Arr [Obj [(''uri'', Str ''https://example.com/ref0.jpg'')]])]\<rparr>])
   \<and> UpscaleVideo full_args (mock_resolving fox_task) =
       (generation_success ''videoUrl''
          [''model'', ''promptVideo''] fox_task,
        [\<lparr>apiKey = ''key_test'', endpoint = videoUpscale,
          argument = Obj [(''model'', Str ''upscale_video''),
                         (''promptVideo'', Str ''https://example.com/my-video.mp4'')]\<rparr>])
   \<and> generation_success ''imageUrl'' [''model'', ''promptText'', ''ratio''] fox_task =
       [(''success'', Bool True),
        (''taskId'', Str ''task_1''),
        (''status'', Str ''SUCCEEDED''),
        (''output'', Arr [Str ''https://cdn.example/img1.png'']),
        (''imageUrl'', Str ''https://cdn.example/img1.png''),
        (''createdAt'', Str ''2025-01-01T00:00:00.000Z''),
        (''model'', Undefined),
        (''promptText'', Undefined),
        (''ratio'', Undefined)]
   \<and> lookup (generation_success ''videoUrl'' [''model'', ''promptVideo'']
               (Obj [(''id'', Str ''task_3'')])) ''videoUrl'' = Null"
proof -
  have "\<not> nullish fox_task"
    by (simp add: fox_task_def)
  then show ?thesis
    using generation_completed
      [where w = "mock_resolving fox_task" and key = "''key_test''" and task = fox_task
         and a = full_args and imgs = "[example_image 0]"
         and copied = "[''model'', ''promptVideo'']"]
      generation_completed
      [where w = "mock_resolving (Obj [(''id'', Str ''task_3'')])" and key = "''key_test''"
         and task = "Obj [(''id'', Str ''task_3'')]" and a = full_args
         and imgs = "[example_image 0]" and copied = "[''model'', ''promptVideo'']"]
    by (simp add: Let_def full_args_def no_args_def example_image_def mock_resolving_def
        opt_str_def opt_num_def default_to_def js_ref_def decimal.simps)
      (simp add: generation_success_def first_output_def lookup_def fox_task_def)
qed

section \<open>Validation of reference images\<close>

lemma check_uris_first:
  "i < length imgs \<Longrightarrow> \<not> present (uri (imgs ! i)) \<Longrightarrow> \<forall>j<i. present (uri (imgs ! j)) \<Longrightarrow>
     check_uris n imgs =
       Some [(''success'', Bool False),
             (''error'', Str (''Reference image at index '' @ decimal (n + i)
                              @ '' must have a 'uri' property''))]"
proof (induction imgs arbitrary: n i)
  case Nil
  then show ?case by simp
next
  case (Cons img rest)
  show ?case
  proof (cases i)
    case 0
    with Cons.prems show ?thesis by simp
  next
    case (Suc k)
    with Cons.prems have "k < length rest" and "\<not> present (uri (rest ! k))"
      and "\<forall>j<k. present (uri (rest ! j))" and "present (uri img)"
      by auto
    with Cons.IH [of k "Suc n"] Suc show ?thesis by simp
  qed
qed

text \<open>
  C7. \<^verbatim>\<open>GenerateImageWithReferences\<close> rejects, without a vendor request and in every
  world, an absent or empty \<^verbatim>\<open>referenceImages\<close> with the error
  \<^verbatim>\<open>referenceImages must be a non-empty array\<close>, and a list with an image that lacks a
  \<^verbatim>\<open>uri\<close> with the error \<^verbatim>\<open>Reference image at index i must have a 'uri' property\<close>,
  \<open>i\<close> the index of the first such image. For a list of one to four images that all carry
  a \<^verbatim>\<open>uri\<close> the validation passes: with the SDK module loaded and the credential set,
  the handler issues the text-to-image request, with the images in its parameters.
\<close>

theorem reference_image_validation:
  "(referenceImages a = None \<or> referenceImages a = Some [] \<longrightarrow>
      GenerateImageWithReferences a w =
        ([(''success'', Bool False),
          (''error'', Str ''referenceImages must be a non-empty array'')], []))
   \<and> (referenceImages a = Some imgs \<and> i < length imgs \<and> \<not> present (uri (imgs ! i))
         \<and> (\<forall>j<i. present (uri (imgs ! j))) \<longrightarrow>
      GenerateImageWithReferences a w =
        ([(''success'', Bool False),
          (''error'', Str (''Reference image at index '' @ decimal i
                           @ '' must have a 'uri' property''))], []))
   \<and> (referenceImages a = Some imgs \<and> 1 \<le> length imgs \<and> length imgs \<le> 4
         \<and> (\<forall>img\<in>set imgs. present (uri img))
         \<and> sdk_import w = None \<and> RUNWAY_API_KEY w = Some key \<and> key \<noteq> [] \<longrightarrow>
      snd (GenerateImageWithReferences a w) =
        [\<lparr>apiKey = key, endpoint = textToImage,
          argument = Obj ([(''model'', Str (default_to (model a) ''gen4_image'')),
                           (''promptText'', opt_str (promptText a)),
                           (''ratio'', Str (default_to (ratio a) ''1920:1080'')),
                           (''referenceImages'', Arr (map js_ref imgs))]
                          @ (if seed a \<noteq> None then [(''seed'', opt_num (seed a))] else []))\<rparr>])"
proof (intro conjI impI)
  assume "referenceImages a = None \<or> referenceImages a = Some []"
  then show "GenerateImageWithReferences a w =
      ([(''success'', Bool False),
        (''error'', Str ''referenceImages must be a non-empty array'')], [])"
    by (auto simp: GenerateImageWithReferences_def try_catch_Inr)
next
  assume h: "referenceImages a = Some imgs \<and> i < length imgs \<and> \<not> present (uri (imgs ! i))
    \<and> (\<forall>j<i. present (uri (imgs ! j)))"
  then have "imgs \<noteq> []" by auto
  with h check_uris_first [of i imgs 0]
  show "GenerateImageWithReferences a w =
      ([(''success'', Bool False),
        (''error'', Str (''Reference image at index '' @ decimal i
                         @ '' must have a 'uri' property''))], [])"
    by (simp add: GenerateImageWithReferences_def try_catch_Inr)
next
  assume h: "referenceImages a = Some imgs \<and> 1 \<le> length imgs \<and> length imgs \<le> 4
    \<and> (\<forall>img\<in>set imgs. present (uri img))
    \<and> sdk_import w = None \<and> RUNWAY_API_KEY w = Some key \<and> key \<noteq> []"
  then have "imgs \<noteq> []" by auto
  with h GenerateImageWithReferences_request [of a imgs w key]
  show "snd (GenerateImageWithReferences a w) =
      [\<lparr>apiKey = key, endpoint = textToImage,
        argument = Obj ([(''model'', Str (default_to (model a) ''gen4_image'')),
                         (''promptText'', opt_str (promptText a)),
                         (''ratio'', Str (default_to (ratio a) ''1920:1080'')),
                         (''referenceImages'', Arr (map js_ref imgs))]
                        @ (if seed a \<noteq> None then [(''seed'', opt_num (seed a))] else []))\<rparr>]"
    by blast
qed

theorem reference_image_validation_witness:
  "GenerateImageWithReferences (full_args\<lparr>referenceImages := Some []\<rparr>) (mock_resolving fox_task) =
     ([(''success'', Bool False),
       (''error'', Str ''referenceImages must be a non-empty array'')], [])
   \<and> GenerateImageWithReferences
       (full_args\<lparr>referenceImages := Some [example_image 0, \<lparr>uri = None, tag = Some ''style''\<rparr>]\<rparr>)
       (mock_resolving fox_task) =
     ([(''success'', Bool False),
       (''error'', Str ''Reference image at index 1 must have a 'uri' property'')], [])
   \<and> snd (GenerateImageWithReferences
       (full_args\<lparr>referenceImages :=
          Some [example_image 0, example_image 1, example_image 2, example_image 3]\<rparr>)
       (mock_resolving fox_task)) =
     [\<lparr>apiKey = ''key_test'', endpoint = textToImage,
       argument = Obj [(''model'', Str ''gen4_image''),
                       (''promptText'', Str ''a red fox in snow''),
                       (''ratio'', Str ''1920:1080''),
                       (''referenceImages'',
                        Arr [Obj [(''uri'', Str ''https://example.com/ref0.jpg'')],
                             Obj [(''uri'', Str ''https://example.com/ref1.jpg'')],
                             Obj [(''uri'', Str ''https://example.com/ref2.jpg'')],
                             Obj [(''uri'', Str ''https://example.com/ref3.jpg'')]])]\<rparr>]"
proof -
  let ?w = "mock_resolving fox_task"
  let ?bad = "[example_image 0, \<lparr>uri = None, tag = Some ''style''\<rparr>]"
  let ?four = "[example_image 0, example_image 1, example_image 2, example_image 3]"
  have empty: "GenerateImageWithReferences (full_args\<lparr>referenceImages := Some []\<rparr>) ?w =
     ([(''success'', Bool False),
       (''error'', Str ''referenceImages must be a non-empty array'')], [])"
    using reference_image_validation
      [where a = "full_args\<lparr>referenceImages := Some []\<rparr>" and w = ?w and imgs = "[]"
         and i = 0 and key = "''key_test''"]
    by (simp add: example_defs)
  have bad: "GenerateImageWithReferences (full_args\<lparr>referenceImages := Some ?bad\<rparr>) ?w =
     ([(''success'', Bool False),
       (''error'', Str ''Reference image at index 1 must have a 'uri' property'')], [])"
    using reference_image_validation
      [where a = "full_args\<lparr>referenceImages := Some ?bad\<rparr>" and w = ?w and imgs = ?bad
         and i = 1 and key = "''key_test''"]
    by (simp add: example_defs opt_str_def decimal.simps)
  have four: "snd (GenerateImageWithReferences (full_args\<lparr>referenceImages := Some ?four\<rparr>) ?w) =
     [\<lparr>apiKey = ''key_test'', endpoint = textToImage,
       argument = Obj [(''model'', Str ''gen4_image''),
                       (''promptText'', Str ''a red fox in snow''),
                       (''ratio'', Str ''1920:1080''),
                       (''referenceImages'',
                        Arr [Obj [(''uri'', Str ''https://example.com/ref0.jpg'')],
                             Obj [(''uri'', Str ''https://example.com/ref1.jpg'')],
                             Obj [(''uri'', Str ''https://example.com/ref2.jpg'')],
                             Obj [(''uri'', Str ''https://example.com/ref3.jpg'')]])]\<rparr>]"
    using reference_image_validation
      [where a = "full_args\<lparr>referenceImages := Some ?four\<rparr>" and w = ?w and imgs = ?four
         and i = 0 and key = "''key_test''"]
    by (simp add: example_defs opt_str_def opt_num_def default_to_def js_ref_def decimal.simps)
  from empty bad four show ?thesis by simp
qed

text \<open>
  C10. The bound of four reference images of the parameter schemas (\<^verbatim>\<open>maxItems: 4\<close>) is
  not checked by the handlers. With the SDK module loaded and the credential set, for a
  \<^verbatim>\<open>referenceImages\<close> list of any length from one on whose images all carry a \<^verbatim>\<open>uri\<close>,
  \<^verbatim>\<open>GenerateImageWithReferences\<close> issues its request with the whole list as
  \<^verbatim>\<open>referenceImages\<close>, and so does \<^verbatim>\<open>GenerateVideoFromVideo\<close> when \<^verbatim>\<open>promptVideo\<close> and
  \<^verbatim>\<open>promptText\<close> are present.
\<close>

theorem reference_image_bound_not_enforced:
  assumes "referenceImages a = Some imgs" and "1 \<le> length imgs"
    and "\<forall>img\<in>set imgs. present (uri img)"
    and "sdk_import w = None" and "RUNWAY_API_KEY w = Some key" and "key \<noteq> []"
  shows "forwarded (GenerateImageWithReferences a w) ''referenceImages'' (Arr (map js_ref imgs))
    \<and> (present (promptVideo a) \<and> present (promptText a) \<longrightarrow>
         forwarded (GenerateVideoFromVideo a w) ''referenceImages'' (Arr (map js_ref imgs)))"
proof -
  from assms(2) have ne: "imgs \<noteq> []" by auto
  have "forwarded (GenerateImageWithReferences a w) ''referenceImages'' (Arr (map js_ref imgs))"
    using GenerateImageWithReferences_request [OF assms(1) ne assms(3-6)]
    by (simp add: forwarded_def)
  moreover have "forwarded (GenerateVideoFromVideo a w) ''referenceImages'' (Arr (map js_ref imgs))"
    if "present (promptVideo a)" and "present (promptText a)"
    using GenerateVideoFromVideo_request [of a w key] that assms ne
    by (simp add: forwarded_def default_to_def)
  ultimately show ?thesis by blast
qed

theorem reference_image_bound_not_enforced_witness:
  "length [example_image 0, example_image 1, example_image 2, example_image 3, example_image 4] = 5
   \<and> snd (GenerateImageWithReferences
       (full_args\<lparr>referenceImages :=
          Some [example_image 0, example_image 1, example_image 2, example_image 3,
                example_image 4]\<rparr>)
       (mock_resolving fox_task)) =
     [\<lparr>apiKey = ''key_test'', endpoint = textToImage,
       argument = Obj [(''model'', Str ''gen4_image''),
                       (''promptText'', Str ''a red fox in snow''),
                       (''ratio'', Str ''1920:1080''),
                       (''referenceImages'',
                        Arr [Obj [(''uri'', Str ''https://example.com/ref0.jpg'')],
                             Obj [(''uri'', Str ''https://example.com/ref1.jpg'')],
                             Obj [(''uri'', Str ''https://example.com/ref2.jpg'')],
                             Obj [(''uri'', Str ''https://example.com/ref3.jpg'')],
                             Obj [(''uri'', Str ''https://example.com/ref4.jpg'')]])]\<rparr>]
   \<and> forwarded
       (GenerateVideoFromVideo
         (full_args\<lparr>referenceImages :=
            Some [example_image 0, example_image 1, example_image 2, example_image 3,
                  example_image 4]\<rparr>)
         (mock_resolving fox_task))
       ''referenceImages''
       (Arr [Obj [(''uri'', Str ''https://example.com/ref0.jpg'')],
             Obj [(''uri'', Str ''https://example.com/ref1.jpg'')],
             Obj [(''uri'', Str ''https://example.com/ref2.jpg'')],
             Obj [(''uri'', Str ''https://example.com/ref3.jpg'')],
             Obj [(''uri'', Str ''https://example.com/ref4.jpg'')]])"
proof -
  let ?five = "[example_image 0, example_image 1, example_image 2, example_image 3,
    example_image 4]"
  let ?a = "full_args\<lparr>referenceImages := Some ?five\<rparr>"
  have uris: "map js_ref ?five =
    [Obj [(''uri'', Str ''https://example.com/ref0.jpg'')],
     Obj [(''uri'', Str ''https://example.com/ref1.jpg'')],
     Obj [(''uri'', Str ''https://example.com/ref2.jpg'')],
     Obj [(''uri'', Str ''https://example.com/ref3.jpg'')],
     Obj [(''uri'', Str ''https://example.com/ref4.jpg'')]]"
    by (simp add: example_image_def js_ref_def decimal.simps)
  have "forwarded (GenerateImageWithReferences ?a (mock_resolving fox_task)) ''referenceImages''
      (Arr (map js_ref ?five))
    \<and> forwarded (GenerateVideoFromVideo ?a (mock_resolving fox_task)) ''referenceImages''
      (Arr (map js_ref ?five))"
    using reference_image_bound_not_enforced
      [where a = ?a and w = "mock_resolving fox_task" and imgs = ?five and key = "''key_test''"]
    by (simp add: full_args_def no_args_def mock_resolving_def example_image_def opt_str_def)
  moreover have "snd (GenerateImageWithReferences ?a (mock_resolving fox_task)) =
     [\<lparr>apiKey = ''key_test'', endpoint = textToImage,
       argument = Obj [(''model'', Str ''gen4_image''),
                       (''promptText'', Str ''a red fox in snow''),
                       (''ratio'', Str ''1920:1080''),
                       (''referenceImages'', Arr (map js_ref ?five))]\<rparr>]"
    using GenerateImageWithReferences_request
      [where a = ?a and w = "mock_resolving fox_task" and imgs = ?five and key = "''key_test''"]
    by (simp add: full_args_def no_args_def mock_resolving_def example_image_def opt_str_def
        opt_num_def default_to_def)
  ultimately show ?thesis by (simp only: uris) simp
qed

section \<open>The two list handlers\<close>

lemma ListTasks_request:
  assumes "sdk_import w = None" and "RUNWAY_API_KEY w = Some key" and "key \<noteq> []"
  shows "snd (ListTasks a w) =
    [\<lparr>apiKey = key, endpoint = tasks_list, argument = Obj (list_params a)\<rparr>]"
  using assms by (simp add: ListTasks_def try_catch_snd with_client_key snd_await Let_def)





section \<open>Enumerated parameters\<close>

lemma generation_catch_generic:
  "name e \<noteq> ''TaskFailedError'' \<Longrightarrow> generation_catch failed generic e = generic_failure generic e"
  by (simp add: generation_catch_def generic_failure_def)

lemma GenerateImage_generic:
  assumes "name e \<noteq> ''TaskFailedError''" and "snd (GenerateImage a w) = [req]"
    and "vendor w req = Rejected e"
  shows "fst (GenerateImage a w) =
    generic_failure ''An error occurred while generating the image'' e"
proof -
  from assms(2) obtain key
    where "sdk_import w = None" and "RUNWAY_API_KEY w = Some key" and "key \<noteq> []"
    by (auto simp: GenerateImage_def try_catch_snd Let_def split: if_splits option.splits
        dest: with_client_calls)
  with assms show ?thesis
    by (auto simp: GenerateImage_def try_catch_fst try_catch_snd with_client_key Let_def snd_await
        await_Rejected generation_catch_generic split: if_splits option.splits)
qed

lemma GenerateImageWithReferences_generic:
  assumes "name e \<noteq> ''TaskFailedError''" and "snd (GenerateImageWithReferences a w) = [req]"
    and "vendor w req = Rejected e"
  shows "fst (GenerateImageWithReferences a w) =
    generic_failure ''An error occurred while generating the image with references'' e"
proof -
  from assms(2) obtain key
    where "sdk_import w = None" and "RUNWAY_API_KEY w = Some key" and "key \<noteq> []"
    by (auto simp: GenerateImageWithReferences_def try_catch_snd Let_def split: if_splits option.splits
        dest: with_client_calls)
  with assms show ?thesis
    by (auto simp: GenerateImageWithReferences_def try_catch_fst try_catch_snd with_client_key Let_def snd_await
        await_Rejected generation_catch_generic split: if_splits option.splits)
qed

lemma GenerateVideoFromText_generic:
  assumes "name e \<noteq> ''TaskFailedError''" and "snd (GenerateVideoFromText a w) = [req]"
    and "vendor w req = Rejected e"
  shows "fst (GenerateVideoFromText a w) =
    generic_failure ''An error occurred while generating the video from text'' e"
proof -
  from assms(2) obtain key
    where "sdk_import w = None" and "RUNWAY_API_KEY w = Some key" and "key \<noteq> []"
    by (auto simp: GenerateVideoFromText_def try_catch_snd Let_def split: if_splits option.splits
        dest: with_client_calls)
  with assms show ?thesis
    by (auto simp: GenerateVideoFromText_def try_catch_fst try_catch_snd with_client_key Let_def snd_await
        await_Rejected generation_catch_generic split: if_splits option.splits)
qed

lemma GenerateVideoFromImage_generic:
  assumes "name e \<noteq> ''TaskFailedError''" and "snd (GenerateVideoFromImage a w) = [req]"
    and "vendor w req = Rejected e"
  shows "fst (GenerateVideoFromImage a w) =
    generic_failure ''An error occurred while generating the video from image'' e"
proof -
  from assms(2) obtain key
    where "sdk_import w = None" and "RUNWAY_API_KEY w = Some key" and "key \<noteq> []"
    by (auto simp: GenerateVideoFromImage_def try_catch_snd Let_def split: if_splits option.splits
        dest: with_client_calls)
  with assms show ?thesis
    by (auto simp: GenerateVideoFromImage_def try_catch_fst try_catch_snd with_client_key Let_def snd_await
        await_Rejected generation_catch_generic split: if_splits option.splits)
qed

lemma GenerateVideoFromVideo_generic:
  assumes "name e \<noteq> ''TaskFailedError''" and "snd (GenerateVideoFromVideo a w) = [req]"
    and "vendor w req = Rejected e"
  shows "fst (GenerateVideoFromVideo a w) =
    generic_failure ''An error occurred while generating the video from video'' e"
proof -
  from assms(2) obtain key
    where "sdk_import w = None" and "RUNWAY_API_KEY w = Some key" and "key \<noteq> []"
    by (auto simp: GenerateVideoFromVideo_def try_catch_snd Let_def split: if_splits option.splits
        dest: with_client_calls)
  with assms show ?thesis
    by (auto simp: GenerateVideoFromVideo_def try_catch_fst try_catch_snd with_client_key Let_def snd_await
        await_Rejected generation_catch_generic split: if_splits option.splits)
qed

lemma UpscaleVideo_generic:
  assumes "name e \<noteq> ''TaskFailedError''" and "snd (UpscaleVideo a w) = [req]"
    and "vendor w req = Rejected e"
  shows "fst (UpscaleVideo a w) =
    generic_failure ''An error occurred while upscaling the video'' e"
proof -
  from assms(2) obtain key
    where "sdk_import w = None" and "RUNWAY_API_KEY w = Some key" and "key \<noteq> []"
    by (auto simp: UpscaleVideo_def try_catch_snd Let_def split: if_splits option.splits
        dest: with_client_calls)
  with assms show ?thesis
    by (auto simp: UpscaleVideo_def try_catch_fst try_catch_snd with_client_key Let_def snd_await
        await_Rejected generation_catch_generic split: if_splits option.splits)
qed

lemma ListTasks_generic:
  assumes "snd (ListTasks a w) = [req]" and "vendor w req = Rejected e"
  shows "fst (ListTasks a w) = generic_failure ''An error occurred while listing tasks'' e"
proof -
  from assms(1) obtain key
    where "sdk_import w = None" and "RUNWAY_API_KEY w = Some key" and "key \<noteq> []"
    by (auto simp: ListTasks_def try_catch_snd Let_def dest: with_client_calls)
  with assms show ?thesis
    by (auto simp: ListTasks_def try_catch_fst try_catch_snd with_client_key Let_def snd_await
        await_Rejected generic_failure_def)
qed

text \<open>
  C8, as the claim states it, fails: a supplied \<^verbatim>\<open>style\<close> that is the empty string is a
  value outside the enumeration which \<^verbatim>\<open>GenerateImage\<close> does not place into the request
  (\<^verbatim>\<open>if (style) params.style = style\<close>), and the \<^verbatim>\<open>ListTasks\<close> that reports listing as
  unsupported forwards no status filter at all, since it issues no request.
\<close>

theorem empty_style_not_forwarded:
  "snd (GenerateImage (no_args\<lparr>promptText := Some ''a red fox in snow'', style := Some []\<rparr>)
         (mock_resolving fox_task)) =
     [\<lparr>apiKey = ''key_test'', endpoint = textToImage,
       argument = Obj [(''model'', Str ''gen4_image''),
                       (''promptText'', Str ''a red fox in snow''),
                       (''ratio'', Str ''1920:1080'')]\<rparr>]
   \<and> \<not> forwarded
         (GenerateImage (no_args\<lparr>promptText := Some ''a red fox in snow'', style := Some []\<rparr>)
            (mock_resolving fox_task))
         ''style'' (Str [])
   \<and> snd (ListTasks_unsupported (no_args\<lparr>args.status := Some ''BOGUS''\<rparr>)
           (mock_resolving fox_task)) = []"
  by (simp add: GenerateImage_def ListTasks_unsupported_def try_catch_def with_client_def
      await_def forwarded_def no_args_def mock_resolving_def opt_str_def opt_num_def
      default_to_def)

text \<open>
  C8, amended. Let the SDK module be loaded and the credential set. No handler tests an
  enumerated parameter against its declared values. \<^verbatim>\<open>model\<close> and \<^verbatim>\<open>ratio\<close> go into the
  request as supplied, whatever string they are (the default when absent), for each of
  the six generation handlers whose other local checks pass. \<^verbatim>\<open>style\<close> (of
  \<^verbatim>\<open>GenerateImage\<close>) and \<^verbatim>\<open>status\<close> (of the \<^verbatim>\<open>ListTasks\<close> that calls the vendor) go into the
  request as supplied when they are non-empty, and are left out of it when absent or
  empty. When the vendor rejects the request with an error that is not a
  \<^verbatim>\<open>TaskFailedError\<close>, the envelope is the generic failure of the operation, with the
  message of the error.
\<close>

theorem enumerated_values_forwarded:
  assumes "sdk_import w = None" and "RUNWAY_API_KEY w = Some key" and "key \<noteq> []"
  shows
    "forwarded (GenerateImage a w) ''model'' (Str (default_to (model a) ''gen4_image''))
     \<and> forwarded (GenerateImage a w) ''ratio'' (Str (default_to (ratio a) ''1920:1080''))
     \<and> (present (style a) \<longrightarrow> forwarded (GenerateImage a w) ''style'' (opt_str (style a)))
     \<and> (\<not> present (style a) \<longrightarrow> \<not> forwarded (GenerateImage a w) ''style'' v)
     \<and> forwarded (GenerateVideoFromText a w) ''model'' (Str (default_to (model a) ''gen4_turbo''))
     \<and> forwarded (GenerateVideoFromText a w) ''ratio'' (Str (default_to (ratio a) ''1280:720''))
     \<and> (present (promptImage a) \<longrightarrow>
          forwarded (GenerateVideoFromImage a w) ''model'' (Str (default_to (model a) ''gen4_turbo''))
          \<and> forwarded (GenerateVideoFromImage a w) ''ratio''
               (Str (default_to (ratio a) ''1280:720'')))
     \<and> (present (promptVideo a) \<longrightarrow>
          forwarded (UpscaleVideo a w) ''model'' (Str (default_to (model a) ''upscale_video'')))
     \<and> (referenceImages a = Some imgs \<and> imgs \<noteq> [] \<and> (\<forall>img\<in>set imgs. present (uri img)) \<longrightarrow>
          forwarded (GenerateImageWithReferences a w) ''model''
            (Str (default_to (model a) ''gen4_image''))
          \<and> forwarded (GenerateImageWithReferences a w) ''ratio''
               (Str (default_to (ratio a) ''1920:1080'')))
     \<and> (present (promptVideo a) \<and> present (promptText a)
          \<and> (\<forall>img\<in>set (default_to (referenceImages a) []). present (uri img)) \<longrightarrow>
          forwarded (GenerateVideoFromVideo a w) ''model'' (Str (default_to (model a) ''gen4_turbo''))
          \<and> forwarded (GenerateVideoFromVideo a w) ''ratio''
               (Str (default_to (ratio a) ''1280:720'')))
     \<and> (present (args.status a) \<longrightarrow>
          forwarded (ListTasks a w) ''status'' (opt_str (args.status a)))
     \<and> (\<not> present (args.status a) \<longrightarrow> \<not> forwarded (ListTasks a w) ''status'' v)
     \<and> (name e \<noteq> ''TaskFailedError'' \<longrightarrow>
          (\<forall>req. snd (GenerateImage a w) = [req] \<and> vendor w req = Rejected e \<longrightarrow>
             fst (GenerateImage a w) =
               generic_failure ''An error occurred while generating the image'' e)
          \<and> (\<forall>req. snd (GenerateImageWithReferences a w) = [req] \<and> vendor w req = Rejected e \<longrightarrow>
             fst (GenerateImageWithReferences a w) =
               generic_failure ''An error occurred while generating the image with references'' e)
          \<and> (\<forall>req. snd (GenerateVideoFromText a w) = [req] \<and> vendor w req = Rejected e \<longrightarrow>
             fst (GenerateVideoFromText a w) =
               generic_failure ''An error occurred while generating the video from text'' e)
          \<and> (\<forall>req. snd (GenerateVideoFromImage a w) = [req] \<and> vendor w req = Rejected e \<longrightarrow>
             fst (GenerateVideoFromImage a w) =
               generic_failure ''An error occurred while generating the video from image'' e)
          \<and> (\<forall>req. snd (GenerateVideoFromVideo a w) = [req] \<and> vendor w req = Rejected e \<longrightarrow>
             fst (GenerateVideoFromVideo a w) =
               generic_failure ''An error occurred while generating the video from video'' e)
          \<and> (\<forall>req. snd (UpscaleVideo a w) = [req] \<and> vendor w req = Rejected e \<longrightarrow>
             fst (UpscaleVideo a w) =
               generic_failure ''An error occurred while upscaling the video'' e))
     \<and> (\<forall>req. snd (ListTasks a w) = [req] \<and> vendor w req = Rejected e \<longrightarrow>
          fst (ListTasks a w) = generic_failure ''An error occurred while listing tasks'' e)"
proof -
  have image: "forwarded (GenerateImage a w) ''model'' (Str (default_to (model a) ''gen4_image''))
     \<and> forwarded (GenerateImage a w) ''ratio'' (Str (default_to (ratio a) ''1920:1080''))
     \<and> (present (style a) \<longrightarrow> forwarded (GenerateImage a w) ''style'' (opt_str (style a)))
     \<and> (\<not> present (style a) \<longrightarrow> \<not> forwarded (GenerateImage a w) ''style'' v)"
    using GenerateImage_request [OF assms, of a] by (simp add: forwarded_def)
  have video_text: "forwarded (GenerateVideoFromText a w) ''model''
       (Str (default_to (model a) ''gen4_turbo''))
     \<and> forwarded (GenerateVideoFromText a w) ''ratio'' (Str (default_to (ratio a) ''1280:720''))"
    using GenerateVideoFromText_request [OF assms, of a] by (simp add: forwarded_def)
  have from_image: "present (promptImage a) \<longrightarrow>
      forwarded (GenerateVideoFromImage a w) ''model'' (Str (default_to (model a) ''gen4_turbo''))
      \<and> forwarded (GenerateVideoFromImage a w) ''ratio'' (Str (default_to (ratio a) ''1280:720''))"
    using GenerateVideoFromImage_request [OF _ assms, of a] by (simp add: forwarded_def)
  have upscale: "present (promptVideo a) \<longrightarrow>
      forwarded (UpscaleVideo a w) ''model'' (Str (default_to (model a) ''upscale_video''))"
    using UpscaleVideo_request [OF _ assms, of a] by (simp add: forwarded_def)
  have refs: "referenceImages a = Some imgs \<and> imgs \<noteq> [] \<and> (\<forall>img\<in>set imgs. present (uri img)) \<longrightarrow>
      forwarded (GenerateImageWithReferences a w) ''model''
        (Str (default_to (model a) ''gen4_image''))
      \<and> forwarded (GenerateImageWithReferences a w) ''ratio''
           (Str (default_to (ratio a) ''1920:1080''))"
    using GenerateImageWithReferences_request [OF _ _ _ assms, of a imgs]
    by (simp add: forwarded_def)
  have from_video: "present (promptVideo a) \<and> present (promptText a)
      \<and> (\<forall>img\<in>set (default_to (referenceImages a) []). present (uri img)) \<longrightarrow>
      forwarded (GenerateVideoFromVideo a w) ''model'' (Str (default_to (model a) ''gen4_turbo''))
      \<and> forwarded (GenerateVideoFromVideo a w) ''ratio'' (Str (default_to (ratio a) ''1280:720''))"
    using GenerateVideoFromVideo_request [OF _ _ _ assms, of a] by (simp add: forwarded_def)
  have list: "(present (args.status a) \<longrightarrow>
        forwarded (ListTasks a w) ''status'' (opt_str (args.status a)))
      \<and> (\<not> present (args.status a) \<longrightarrow> \<not> forwarded (ListTasks a w) ''status'' v)"
    using ListTasks_request [OF assms, of a] by (simp add: forwarded_def list_params_def)
  have generic: "name e \<noteq> ''TaskFailedError'' \<longrightarrow>
      (\<forall>req. snd (GenerateImage a w) = [req] \<and> vendor w req = Rejected e \<longrightarrow>
         fst (GenerateImage a w) =
           generic_failure ''An error occurred while generating the image'' e)
      \<and> (\<forall>req. snd (GenerateImageWithReferences a w) = [req] \<and> vendor w req = Rejected e \<longrightarrow>
         fst (GenerateImageWithReferences a w) =
           generic_failure ''An error occurred while generating the image with references'' e)
      \<and> (\<forall>req. snd (GenerateVideoFromText a w) = [req] \<and> vendor w req = Rejected e \<longrightarrow>
         fst (GenerateVideoFromText a w) =
           generic_failure ''An error occurred while generating the video from text'' e)
      \<and> (\<forall>req. snd (GenerateVideoFromImage a w) = [req] \<and> vendor w req = Rejected e \<longrightarrow>
         fst (GenerateVideoFromImage a w) =
           generic_failure ''An error occurred while generating the video from image'' e)
      \<and> (\<forall>req. snd (GenerateVideoFromVideo a w) = [req] \<and> vendor w req = Rejected e \<longrightarrow>
         fst (GenerateVideoFromVideo a w) =
           generic_failure ''An error occurred while generating the video from video'' e)
      \<and> (\<forall>req. snd (UpscaleVideo a w) = [req] \<and> vendor w req = Rejected e \<longrightarrow>
         fst (UpscaleVideo a w) =
           generic_failure ''An error occurred while upscaling the video'' e)"
    using GenerateImage_generic [of e a w] GenerateImageWithReferences_generic [of e a w]
      GenerateVideoFromText_generic [of e a w] GenerateVideoFromImage_generic [of e a w]
      GenerateVideoFromVideo_generic [of e a w] UpscaleVideo_generic [of e a w]
    by (intro impI conjI allI) (elim conjE, assumption)+
  have list_generic: "\<forall>req. snd (ListTasks a w) = [req] \<and> vendor w req = Rejected e \<longrightarrow>
      fst (ListTasks a w) = generic_failure ''An error occurred while listing tasks'' e"
    using ListTasks_generic [of a w _ e] by (intro impI allI) (elim conjE, assumption)
  from image video_text from_image upscale refs from_video list generic list_generic
  show ?thesis
    apply -
    apply (elim conjE)
    apply (intro conjI)
                 apply assumption+
    done
qed

theorem enumerated_values_forwarded_witness:
  "forwarded (GenerateImage odd_args (mock_rejecting bad_request_error)) ''model'' (Str ''gen9_ultra'')
   \<and> forwarded (GenerateImage odd_args (mock_rejecting bad_request_error)) ''ratio'' (Str ''7:3'')
   \<and> forwarded (GenerateImage odd_args (mock_rejecting bad_request_error)) ''style''
        (Str ''vaporwave'')
   \<and> forwarded (GenerateVideoFromImage odd_args (mock_rejecting bad_request_error)) ''ratio''
        (Str ''7:3'')
   \<and> forwarded (UpscaleVideo odd_args (mock_rejecting bad_request_error)) ''model''
        (Str ''gen9_ultra'')
   \<and> forwarded (ListTasks odd_args (mock_rejecting bad_request_error)) ''status'' (Str ''BOGUS'')
   \<and> fst (GenerateImage odd_args (mock_rejecting bad_request_error)) =
        [(''success'', Bool False),
         (''error'', Str ''An error occurred while generating the image''),
         (''message'', Str ''400 Invalid ratio'')]
   \<and> fst (ListTasks odd_args (mock_rejecting bad_request_error)) =
        [(''success'', Bool False),
         (''error'', Str ''An error occurred while listing tasks''),
         (''message'', Str ''400 Invalid ratio'')]"
proof -
  let ?w = "mock_rejecting bad_request_error"
  have image: "snd (GenerateImage odd_args ?w) =
     [\<lparr>apiKey = ''key_test'', endpoint = textToImage,
       argument = Obj [(''model'', Str ''gen9_ultra''),
                       (''promptText'', Str ''a red fox in snow''),
                       (''ratio'', Str ''7:3''),
                       (''style'', Str ''vaporwave'')]\<rparr>]"
    using GenerateImage_request [of ?w "''key_test''" odd_args]
    by (simp add: mock_rejecting_def odd_args_def opt_str_def opt_num_def default_to_def)
  have list: "snd (ListTasks odd_args ?w) =
     [\<lparr>apiKey = ''key_test'', endpoint = tasks_list,
       argument = Obj [(''limit'', Num 100), (''status'', Str ''BOGUS'')]\<rparr>]"
    using ListTasks_request [of ?w "''key_test''" odd_args]
    by (simp add: mock_rejecting_def odd_args_def list_params_def opt_str_def default_to_def)
  have rejected: "vendor ?w req = Rejected bad_request_error" for req
    by (simp add: mock_rejecting_def)
  show ?thesis
    using enumerated_values_forwarded
      [where w = ?w and key = "''key_test''" and a = odd_args and e = bad_request_error
         and imgs = "[]" and v = Undefined]
    by (simp add: image list rejected generic_failure_def)
      (simp add: mock_rejecting_def odd_args_def bad_request_error_def opt_str_def
        default_to_def)
qed

section \<open>Required parameters\<close>

text \<open>
  The required parameters that are tested: each of these rejections happens before the
  import and the credential test, in every world and without a vendor request.
\<close>

lemma required_parameters_checked:
  "(\<not> present (promptImage a) \<longrightarrow>
      GenerateVideoFromImage a w =
        ([(''success'', Bool False), (''error'', Str ''promptImage is required'')], []))
   \<and> (\<not> present (promptVideo a) \<longrightarrow>
      GenerateVideoFromVideo a w =
        ([(''success'', Bool False), (''error'', Str ''promptVideo is required'')], []))
   \<and> (present (promptVideo a) \<and> \<not> present (promptText a) \<longrightarrow>
      GenerateVideoFromVideo a w =
        ([(''success'', Bool False), (''error'', Str ''promptText is required'')], []))
   \<and> (\<not> present (promptVideo a) \<longrightarrow>
      UpscaleVideo a w =
        ([(''success'', Bool False), (''error'', Str ''promptVideo is required'')], []))
   \<and> (\<not> present (taskId a) \<longrightarrow>
      GetTaskStatus a w =
        ([(''success'', Bool False), (''error'', Str ''taskId is required'')], []))
   \<and> (\<not> present (taskId a) \<longrightarrow>
      CancelTask a w =
        ([(''success'', Bool False), (''error'', Str ''taskId is required'')], []))"
  by (simp add: GenerateVideoFromImage_def GenerateVideoFromVideo_def UpscaleVideo_def
      GetTaskStatus_def CancelTask_def try_catch_Inr Let_def)

text \<open>
  C1. The schemas of \<^verbatim>\<open>GenerateImage\<close>, \<^verbatim>\<open>GenerateImageWithReferences\<close> and
  \<^verbatim>\<open>GenerateVideoFromText\<close> declare \<^verbatim>\<open>promptText\<close> required, but these three handlers do
  not test it, where \<^verbatim>\<open>GenerateVideoFromVideo\<close> does and every other handler tests its
  required parameters. Called without \<^verbatim>\<open>promptText\<close> and with the credential set, each of
  the three sends the request to the vendor, \<^verbatim>\<open>promptText\<close> being \<^verbatim>\<open>undefined\<close> in its
  parameters; with a vendor that completes the task, \<^verbatim>\<open>GenerateImage({})\<close> returns
  \<^verbatim>\<open>success: true\<close>. The claim asks for \<^verbatim>\<open>success: false\<close>, an error that mentions
  \<^verbatim>\<open>promptText\<close>, and no vendor request.
\<close>

theorem promptText_not_checked:
  "GenerateImage no_args (mock_resolving fox_task) =
     ([(''success'', Bool True),
       (''taskId'', Str ''task_1''),
       (''status'', Str ''SUCCEEDED''),
       (''output'', Arr [Str ''https://cdn.example/img1.png'']),
       (''imageUrl'', Str ''https://cdn.example/img1.png''),
       (''createdAt'', Str ''2025-01-01T00:00:00.000Z''),
       (''model'', Undefined),
       (''promptText'', Undefined),
       (''ratio'', Undefined)],
      [\<lparr>apiKey = ''key_test'', endpoint = textToImage,
        argument = Obj [(''model'', Str ''gen4_image''),
                        (''promptText'', Undefined),
                        (''ratio'', Str ''1920:1080'')]\<rparr>])
   \<and> snd (GenerateVideoFromText no_args (mock_resolving fox_task)) =
      [\<lparr>apiKey = ''key_test'', endpoint = textToVideo,
        argument = Obj [(''model'', Str ''gen4_turbo''),
                        (''promptText'', Undefined),
                        (''ratio'', Str ''1280:720''),
                        (''duration'', Num 5)]\<rparr>]
   \<and> snd (GenerateImageWithReferences
            (no_args\<lparr>referenceImages := Some [\<lparr>uri = Some ''https://example.com/eiffel-tower.jpg'',
                                                tag = Some ''EiffelTower''\<rparr>]\<rparr>)
            (mock_resolving fox_task)) =
      [\<lparr>apiKey = ''key_test'', endpoint = textToImage,
        argument = Obj [(''model'', Str ''gen4_image''),
                        (''promptText'', Undefined),
                        (''ratio'', Str ''1920:1080''),
                        (''referenceImages'',
                         Arr [Obj [(''uri'', Str ''https://example.com/eiffel-tower.jpg''),
                                   (''tag'', Str ''EiffelTower'')]])]\<rparr>]
   \<and> GenerateVideoFromVideo (no_args\<lparr>promptVideo := Some ''https://example.com/my-video.mp4''\<rparr>)
         (mock_resolving fox_task) =
      ([(''success'', Bool False), (''error'', Str ''promptText is required'')], [])"
  by (simp add: GenerateImage_def GenerateVideoFromText_def GenerateImageWithReferences_def
      GenerateVideoFromVideo_def try_catch_def with_client_def await_def no_args_def
      mock_resolving_def fox_task_def opt_str_def opt_num_def default_to_def first_output_def
      lookup_def js_ref_def)

end
